theory Spec2Isabelle
  imports Complex_Main
begin

section \<open>Numbers, objects and errors\<close>

text \<open>
  The library computes with JavaScript numbers. This development models a finite number
  as a \<^typ>\<open>real\<close> and every arithmetic operation and every \<^verbatim>\<open>Math\<close> function as the exact
  real operation, so the results below are statements about the formulas the code
  evaluates, in exact arithmetic. Three things are lost with that.

  \<^item> Rounding: a sum followed by the opposite difference returns the first operand exactly
    here, and only up to rounding in the code.
  \<^item> The sign of zero: the Helmert transformation is therefore modelled a second time
    below, over \<open>jsnum\<close>, which has both zeros.
  \<^item> The values the code gets at arguments it can only approximate. Over the reals
    \<open>sin pi = 0\<close>, so the round trip through geocentric coordinates brings longitude -180
    back as 180 (the code: -180), and the geodesic inverse takes exactly antipodal points
    for coincident ones (the code: no convergence). In HOL \<open>tan (pi / 2) = 0\<close>, so the
    geodesic inverse takes latitude 90 and latitude -90 for latitude 0.

  The evaluations at concrete points below are away from those arguments, and the two
  general theorems about the geodesic inverse (the iteration cap, identical endpoints)
  concern its control flow, which does not depend on them.

  A property value read from a coordinate object is a \<open>jsval\<close>: a finite number, \<^verbatim>\<open>NaN\<close>, or
  the value \<^verbatim>\<open>undefined\<close>. A coordinate object is a finite map from property names to values;
  a property that is absent reads as \<^verbatim>\<open>undefined\<close>.
\<close>

datatype jsval = Undefined | NaN | Num real

type_synonym coords = "string \<rightharpoonup> jsval"

text \<open>\<^verbatim>\<open>throw new Error(`Unknown datum: ${fromDatum} or ${toDatum}`)\<close> carries its message;
  reading a property of \<^verbatim>\<open>undefined\<close> raises a \<^verbatim>\<open>TypeError\<close>.\<close>

datatype error = Error string | TypeError

text \<open>Conversion of a property to a number in an arithmetic expression: \<^verbatim>\<open>undefined\<close>
  becomes \<^verbatim>\<open>NaN\<close>, written \<open>None\<close>.\<close>

fun toNumber :: "jsval option \<Rightarrow> real option" where
  "toNumber (Some (Num r)) = Some r"
| "toNumber _ = None"

text \<open>\<^verbatim>\<open>v || 0\<close>: the falsy values \<^verbatim>\<open>undefined\<close>, \<^verbatim>\<open>NaN\<close> and \<^verbatim>\<open>0\<close> give \<^verbatim>\<open>0\<close>.\<close>

fun or_zero :: "jsval option \<Rightarrow> real" where
  "or_zero (Some (Num r)) = (if r = 0 then 0 else r)"
| "or_zero _ = 0"

section \<open>Constants and angle conversion\<close>

definition DEG2RAD :: real where "DEG2RAD = pi / 180"
definition RAD2DEG :: real where "RAD2DEG = 180 / pi"
definition ARCSEC2RAD :: real where "ARCSEC2RAD = pi / (180 * 3600)"

definition toRadians :: "real \<Rightarrow> real" where
  "toRadians degrees = degrees * DEG2RAD"

definition toDegrees :: "real \<Rightarrow> real" where
  "toDegrees radians = radians * RAD2DEG"

text \<open>\<^verbatim>\<open>Math.atan2(y, x)\<close> on finite arguments.\<close>

definition atan2 :: "real \<Rightarrow> real \<Rightarrow> real" where
  "atan2 y x =
     (if 0 < x then arctan (y / x)
      else if x < 0 then (if 0 \<le> y then arctan (y / x) + pi else arctan (y / x) - pi)
      else if 0 < y then pi / 2
      else if y < 0 then - (pi / 2)
      else 0)"

section \<open>Ellipsoids (\<^verbatim>\<open>ellipsoids.js\<close>)\<close>

text \<open>An ellipsoid entry; the descriptive fields (\<^verbatim>\<open>fullName\<close>, \<^verbatim>\<open>description\<close>, \<^verbatim>\<open>usage\<close>,
  \<^verbatim>\<open>epoch\<close>) take no part in any computation and are left out.\<close>

record ellipsoid =
  ell_name :: string
  ell_a :: real
  ell_f :: real

definition ELLIPSOIDS :: "string \<rightharpoonup> ellipsoid" where
  "ELLIPSOIDS = map_of
     [(''WGS84'', \<lparr>ell_name = ''WGS84'', ell_a = 6378137.0, ell_f = 1 / 298.257223563\<rparr>),
      (''GRS80'', \<lparr>ell_name = ''GRS80'', ell_a = 6378137.0, ell_f = 1 / 298.257222101\<rparr>),
      (''ED50'', \<lparr>ell_name = ''International 1924 (Hayford)'', ell_a = 6378388.0, ell_f = 1 / 297.0\<rparr>),
      (''Bessel1841'', \<lparr>ell_name = ''Bessel 1841'', ell_a = 6377397.155, ell_f = 1 / 299.1528128\<rparr>),
      (''Clarke1866'', \<lparr>ell_name = ''Clarke 1866'', ell_a = 6378206.4, ell_f = 1 / 294.9786982\<rparr>),
      (''Clarke1880'', \<lparr>ell_name = ''Clarke 1880'', ell_a = 6378249.2, ell_f = 1 / 293.466021\<rparr>),
      (''Krassovsky1940'', \<lparr>ell_name = ''Krassovsky 1940'', ell_a = 6378245.0, ell_f = 1 / 298.3\<rparr>),
      (''Airy1830'', \<lparr>ell_name = ''Airy 1830'', ell_a = 6377563.396, ell_f = 1 / 299.3249646\<rparr>)]"

definition WGS84 :: ellipsoid where
  "WGS84 = \<lparr>ell_name = ''WGS84'', ell_a = 6378137.0, ell_f = 1 / 298.257223563\<rparr>"

definition Clarke1880 :: ellipsoid where
  "Clarke1880 = \<lparr>ell_name = ''Clarke 1880'', ell_a = 6378249.2, ell_f = 1 / 293.466021\<rparr>"

record ellipsoid_params = ellipsoid +
  ell_b :: real
  ell_e :: real
  ell_e2 :: real
  ell_ep :: real
  ell_ep2 :: real
  ell_c :: real

definition getEllipsoidParams :: "ellipsoid \<Rightarrow> ellipsoid_params" where
  "getEllipsoidParams ellipsoid =
     (let a = ell_a ellipsoid;
          f = ell_f ellipsoid;
          b = a * (1 - f);
          e2 = 2 * f - f * f;
          e = sqrt e2;
          ep2 = e2 / (1 - e2);
          ep = sqrt ep2;
          c = a * a / b
      in \<lparr>ell_name = ell_name ellipsoid, ell_a = a, ell_f = f,
          ell_b = b, ell_e = e, ell_e2 = e2, ell_ep = ep, ell_ep2 = ep2, ell_c = c\<rparr>)"

section \<open>Datums (\<^verbatim>\<open>datums.js\<close>)\<close>

record helmert_params =
  tx :: real
  ty :: real
  tz :: real
  rx :: real
  ry :: real
  rz :: real
  s_ppm :: real

record datum =
  dat_name :: string
  dat_ellipsoid :: string
  toWGS84 :: helmert_params

definition zero_params :: helmert_params where
  "zero_params = \<lparr>tx = 0, ty = 0, tz = 0, rx = 0, ry = 0, rz = 0, s_ppm = 0\<rparr>"

definition DATUMS_list :: "(string \<times> datum) list" where
  "DATUMS_list =
     [(''WGS84'', \<lparr>dat_name = ''WGS84'', dat_ellipsoid = ''WGS84'', toWGS84 = zero_params\<rparr>),
      (''ITRF2014'', \<lparr>dat_name = ''ITRF2014'', dat_ellipsoid = ''GRS80'', toWGS84 = zero_params\<rparr>),
      (''ITRF2020'', \<lparr>dat_name = ''ITRF2020'', dat_ellipsoid = ''GRS80'', toWGS84 = zero_params\<rparr>),
      (''ETRS89'', \<lparr>dat_name = ''ETRS89'', dat_ellipsoid = ''GRS80'', toWGS84 = zero_params\<rparr>),
      (''TUREF'', \<lparr>dat_name = ''TUREF'', dat_ellipsoid = ''GRS80'', toWGS84 = zero_params\<rparr>),
      (''ED50'', \<lparr>dat_name = ''ED50'', dat_ellipsoid = ''ED50'',
         toWGS84 = \<lparr>tx = -84.0, ty = -103.0, tz = -127.0, rx = 0, ry = 0, rz = 0, s_ppm = 0\<rparr>\<rparr>),
      (''ED50_Turkey'', \<lparr>dat_name = ''ED50 (Turkey)'', dat_ellipsoid = ''ED50'',
         toWGS84 = \<lparr>tx = -87.0, ty = -98.0, tz = -121.0, rx = 0, ry = 0, rz = 0, s_ppm = 0\<rparr>\<rparr>),
      (''NAD27'', \<lparr>dat_name = ''NAD27'', dat_ellipsoid = ''Clarke1866'',
         toWGS84 = \<lparr>tx = -8, ty = 160, tz = 176, rx = 0, ry = 0, rz = 0, s_ppm = 0\<rparr>\<rparr>),
      (''NAD83'', \<lparr>dat_name = ''NAD83'', dat_ellipsoid = ''GRS80'', toWGS84 = zero_params\<rparr>),
      (''OSGB36'', \<lparr>dat_name = ''OSGB36'', dat_ellipsoid = ''Airy1830'',
         toWGS84 = \<lparr>tx = 446.448, ty = -125.157, tz = 542.060,
                    rx = 0.1502, ry = 0.2470, rz = 0.8421, s_ppm = -20.4894\<rparr>\<rparr>),
      (''Tokyo'', \<lparr>dat_name = ''Tokyo'', dat_ellipsoid = ''Bessel1841'',
         toWGS84 = \<lparr>tx = -148, ty = 507, tz = 685, rx = 0, ry = 0, rz = 0, s_ppm = 0\<rparr>\<rparr>),
      (''Pulkovo1942'', \<lparr>dat_name = ''Pulkovo 1942'', dat_ellipsoid = ''Krassovsky1940'',
         toWGS84 = \<lparr>tx = 23.92, ty = -141.27, tz = -80.9,
                    rx = 0, ry = 0.35, rz = 0.82, s_ppm = -0.12\<rparr>\<rparr>),
      (''HD72'', \<lparr>dat_name = ''HD72'', dat_ellipsoid = ''GRS67'',
         toWGS84 = \<lparr>tx = 52.17, ty = -71.82, tz = -14.9, rx = 0, ry = 0, rz = 0, s_ppm = 0\<rparr>\<rparr>)]"

definition DATUMS :: "string \<rightharpoonup> datum" where
  "DATUMS = map_of DATUMS_list"

text \<open>
  \<^verbatim>\<open>DATUMS\<close> is an object literal, so \<^verbatim>\<open>DATUMS[name]\<close> also finds the properties every object
  inherits from \<^verbatim>\<open>Object.prototype\<close>. Such a value is truthy and has neither an
  \<^verbatim>\<open>ellipsoid\<close> nor a \<^verbatim>\<open>toWGS84\<close> property.
\<close>

definition Object_prototype_keys :: "string list" where
  "Object_prototype_keys =
     [''constructor'', ''hasOwnProperty'', ''isPrototypeOf'', ''propertyIsEnumerable'',
      ''toLocaleString'', ''toString'', ''valueOf'', ''__proto__'',
      ''__defineGetter__'', ''__defineSetter__'', ''__lookupGetter__'', ''__lookupSetter__'']"

datatype datum_prop = Own datum | Inherited

definition DATUMS_get :: "string \<Rightarrow> datum_prop option" where
  "DATUMS_get name =
     (case DATUMS name of
        Some d \<Rightarrow> Some (Own d)
      | None \<Rightarrow> if name \<in> set Object_prototype_keys then Some Inherited else None)"

text \<open>\<^verbatim>\<open>DATUMS[name] || null\<close>: \<open>None\<close> stands for \<^verbatim>\<open>null\<close>.\<close>

definition getDatum :: "string \<Rightarrow> datum_prop option" where
  "getDatum name = DATUMS_get name"

text \<open>The properties \<^verbatim>\<open>.toWGS84\<close> and \<^verbatim>\<open>.ellipsoid\<close> of a looked-up value; \<open>None\<close> is
  \<^verbatim>\<open>undefined\<close>.\<close>

fun prop_toWGS84 :: "datum_prop \<Rightarrow> helmert_params option" where
  "prop_toWGS84 (Own d) = Some (toWGS84 d)"
| "prop_toWGS84 Inherited = None"

fun prop_ellipsoid :: "datum_prop \<Rightarrow> string option" where
  "prop_ellipsoid (Own d) = Some (dat_ellipsoid d)"
| "prop_ellipsoid Inherited = None"

definition negate_params :: "helmert_params \<Rightarrow> helmert_params" where
  "negate_params params =
     \<lparr>tx = - tx params, ty = - ty params, tz = - tz params,
      rx = - rx params, ry = - ry params, rz = - rz params, s_ppm = - s_ppm params\<rparr>"

text \<open>The three shapes \<^verbatim>\<open>getTransformationParams\<close> returns: \<^verbatim>\<open>null\<close>, one parameter set
  (possibly the \<^verbatim>\<open>undefined\<close> read from an inherited property), or the two-step object
  \<^verbatim>\<open>{viaWGS84: true, toWGS84, fromWGS84}\<close>.\<close>

datatype trans_params =
  Null
| Direct "helmert_params option"
| ViaWGS84 "helmert_params option" helmert_params

definition getTransformationParams :: "string \<Rightarrow> string \<Rightarrow> error + trans_params" where
  "getTransformationParams fromDatum toDatum =
     (if fromDatum = toDatum then Inr (Direct (Some zero_params))
      else
        case (getDatum fromDatum, getDatum toDatum) of
          (Some source, Some target) \<Rightarrow>
            if toDatum = ''WGS84'' then Inr (Direct (prop_toWGS84 source))
            else if fromDatum = ''WGS84'' then
              (case prop_toWGS84 target of
                 None \<Rightarrow> Inl TypeError
               | Some params \<Rightarrow> Inr (Direct (Some (negate_params params))))
            else
              (case prop_toWGS84 target of
                 None \<Rightarrow> Inl TypeError
               | Some params \<Rightarrow> Inr (ViaWGS84 (prop_toWGS84 source) (negate_params params)))
        | _ \<Rightarrow> Inr Null)"

section \<open>Geographic and geocentric coordinates\<close>

record xyz =
  xyz_x :: real
  xyz_y :: real
  xyz_z :: real

record geographic =
  geo_lat :: real
  geo_lon :: real
  geo_h :: real

definition geographicToGeocentric :: "real \<Rightarrow> real \<Rightarrow> real \<Rightarrow> ellipsoid \<Rightarrow> xyz" where
  "geographicToGeocentric lat lon h ellipsoid =
     (let params = getEllipsoidParams ellipsoid;
          phi = toRadians lat;
          lambda = toRadians lon;
          sinPhi = sin phi;
          cosPhi = cos phi;
          sinLambda = sin lambda;
          cosLambda = cos lambda;
          N = ell_a params / sqrt (1 - ell_e2 params * sinPhi * sinPhi)
      in \<lparr>xyz_x = (N + h) * cosPhi * cosLambda,
          xyz_y = (N + h) * cosPhi * sinLambda,
          xyz_z = (N * (1 - ell_e2 params) + h) * sinPhi\<rparr>)"

text \<open>The refinement loop \<^verbatim>\<open>for (let i = 0; i < 10; i++)\<close> of \<^verbatim>\<open>geocentricToGeographic\<close>:
  \<open>n\<close> counts the passes still allowed, and the \<^verbatim>\<open>break\<close> leaves with the old \<open>phi\<close>.\<close>

fun refine_phi :: "real \<Rightarrow> real \<Rightarrow> real \<Rightarrow> real \<Rightarrow> nat \<Rightarrow> real \<Rightarrow> real" where
  "refine_phi a e2 p z 0 phi = phi"
| "refine_phi a e2 p z (Suc n) phi =
     (let sinPhi = sin phi;
          N = a / sqrt (1 - e2 * sinPhi * sinPhi);
          newPhi = atan2 (z + e2 * N * sinPhi) p
      in if \<bar>newPhi - phi\<bar> < 0.000000000001 then phi else refine_phi a e2 p z n newPhi)"

definition geocentricToGeographic :: "real \<Rightarrow> real \<Rightarrow> real \<Rightarrow> ellipsoid \<Rightarrow> geographic" where
  "geocentricToGeographic x y z ellipsoid =
     (let params = getEllipsoidParams ellipsoid;
          a = ell_a params;
          b = ell_b params;
          e2 = ell_e2 params;
          ep2 = ell_ep2 params;
          lambda = atan2 y x;
          p = sqrt (x * x + y * y);
          theta = atan2 (z * a) (p * b);
          phi0 = atan2 (z + ep2 * b * (sin theta) ^ 3) (p - e2 * a * (cos theta) ^ 3);
          phi = refine_phi a e2 p z 10 phi0;
          sinPhi = sin phi;
          cosPhi = cos phi;
          N = a / sqrt (1 - e2 * sinPhi * sinPhi);
          h = (if \<bar>cosPhi\<bar> > 0.0000000001 then p / cosPhi - N
               else \<bar>z\<bar> / \<bar>sinPhi\<bar> - N * (1 - e2))
      in \<lparr>geo_lat = toDegrees phi, geo_lon = toDegrees lambda, geo_h = h\<rparr>)"

text \<open>Names for the parts of one pass of that loop: \<open>W_of e2 phi\<close> is the square root
  \<^verbatim>\<open>Math.sqrt(1 - e2 * sinPhi * sinPhi)\<close>, \<open>corr a e2 phi\<close> the term \<^verbatim>\<open>e2 * N * sinPhi\<close>, and
  \<open>phi_step a e2 p z phi\<close> the value \<^verbatim>\<open>newPhi\<close> computed from \<open>phi\<close>.\<close>

definition W_of :: "real \<Rightarrow> real \<Rightarrow> real" where
  "W_of e2 psi = sqrt (1 - e2 * sin psi * sin psi)"

definition corr :: "real \<Rightarrow> real \<Rightarrow> real \<Rightarrow> real" where
  "corr a e2 psi = e2 * (a / sqrt (1 - e2 * sin psi * sin psi)) * sin psi"

definition phi_step :: "real \<Rightarrow> real \<Rightarrow> real \<Rightarrow> real \<Rightarrow> real \<Rightarrow> real" where
  "phi_step a e2 p z psi = atan2 (z + corr a e2 psi) p"

section \<open>Helmert 7-parameter transformation\<close>

definition helmertTransformation :: "xyz \<Rightarrow> helmert_params \<Rightarrow> xyz" where
  "helmertTransformation v params =
     (let x = xyz_x v; y = xyz_y v; z = xyz_z v;
          rxRad = rx params * ARCSEC2RAD;
          ryRad = ry params * ARCSEC2RAD;
          rzRad = rz params * ARCSEC2RAD;
          scale = 1 + s_ppm params * 0.000001;
          xp = tx params + scale * (x - rzRad * y + ryRad * z);
          yp = ty params + scale * (rzRad * x + y - rxRad * z);
          zp = tz params + scale * (- ryRad * x + rxRad * y + z)
      in \<lparr>xyz_x = xp, xyz_y = yp, xyz_z = zp\<rparr>)"

definition inverseHelmertTransformation :: "xyz \<Rightarrow> helmert_params \<Rightarrow> xyz" where
  "inverseHelmertTransformation v params =
     (let inverseParams =
            \<lparr>tx = - tx params, ty = - ty params, tz = - tz params,
             rx = - rx params, ry = - ry params, rz = - rz params, s_ppm = - s_ppm params\<rparr>
      in helmertTransformation v inverseParams)"

subsection \<open>The same transformation with the sign of zero\<close>

text \<open>
  A JavaScript number has two zeros. \<open>jsnum\<close> is a finite number that keeps them apart:
  \<open>MinusZero\<close> is \<^verbatim>\<open>-0\<close>, \<open>Val 0\<close> is \<^verbatim>\<open>+0\<close>, and \<open>Val r\<close> any other finite number. The
  operations follow IEEE 754 for the sign of a zero result (a product takes the exclusive or
  of the signs of its factors; a sum that is zero is \<^verbatim>\<open>-0\<close> only when both summands are
  \<^verbatim>\<open>-0\<close>; \<^verbatim>\<open>a - b\<close> is \<^verbatim>\<open>a + (-b)\<close>) and are exact otherwise, so rounding is still left out.
  With the all-zero parameter set no operation of \<^verbatim>\<open>helmertTransformation\<close> rounds: every
  result is one of its operands, \<^verbatim>\<open>1\<close>, or a zero.
\<close>

datatype jsnum = MinusZero | Val real

fun num_of :: "jsnum \<Rightarrow> real" where
  "num_of MinusZero = 0"
| "num_of (Val r) = r"

fun negative :: "jsnum \<Rightarrow> bool" where
  "negative MinusZero = True"
| "negative (Val r) = (r < 0)"

definition zero_of :: "bool \<Rightarrow> jsnum" where
  "zero_of neg = (if neg then MinusZero else Val 0)"

definition js_mul :: "jsnum \<Rightarrow> jsnum \<Rightarrow> jsnum" where
  "js_mul a b =
     (if num_of a * num_of b = 0 then zero_of (negative a \<noteq> negative b)
      else Val (num_of a * num_of b))"

definition js_add :: "jsnum \<Rightarrow> jsnum \<Rightarrow> jsnum" where
  "js_add a b =
     (if num_of a + num_of b = 0 then zero_of (a = MinusZero \<and> b = MinusZero)
      else Val (num_of a + num_of b))"

definition js_neg :: "jsnum \<Rightarrow> jsnum" where
  "js_neg a = (if num_of a = 0 then zero_of (\<not> negative a) else Val (- num_of a))"

definition js_sub :: "jsnum \<Rightarrow> jsnum \<Rightarrow> jsnum" where
  "js_sub a b = js_add a (js_neg b)"

record xyz_js =
  js_x :: jsnum
  js_y :: jsnum
  js_z :: jsnum

record helmert_params_js =
  js_tx :: jsnum
  js_ty :: jsnum
  js_tz :: jsnum
  js_rx :: jsnum
  js_ry :: jsnum
  js_rz :: jsnum
  js_s :: jsnum

text \<open>\<^verbatim>\<open>helmertTransformation\<close> once more, operation by operation, over \<open>jsnum\<close>:
  \<^verbatim>\<open>x - rzRad * y + ryRad * z\<close> is \<^verbatim>\<open>(x - rzRad * y) + ryRad * z\<close> and \<^verbatim>\<open>-ryRad * x\<close> is
  \<^verbatim>\<open>(-ryRad) * x\<close>.\<close>

definition helmertTransformation_js :: "xyz_js \<Rightarrow> helmert_params_js \<Rightarrow> xyz_js" where
  "helmertTransformation_js v params =
     (let x = js_x v; y = js_y v; z = js_z v;
          rxRad = js_mul (js_rx params) (Val ARCSEC2RAD);
          ryRad = js_mul (js_ry params) (Val ARCSEC2RAD);
          rzRad = js_mul (js_rz params) (Val ARCSEC2RAD);
          scale = js_add (Val 1) (js_mul (js_s params) (Val 0.000001));
          xp = js_add (js_tx params)
                 (js_mul scale (js_add (js_sub x (js_mul rzRad y)) (js_mul ryRad z)));
          yp = js_add (js_ty params)
                 (js_mul scale (js_sub (js_add (js_mul rzRad x) y) (js_mul rxRad z)));
          zp = js_add (js_tz params)
                 (js_mul scale (js_add (js_add (js_mul (js_neg ryRad) x) (js_mul rxRad y)) z))
      in \<lparr>js_x = xp, js_y = yp, js_z = zp\<rparr>)"



section \<open>Datum transformation\<close>

text \<open>
  Inside \<^verbatim>\<open>transformDatum\<close> a Cartesian triple is \<open>Some v\<close> when its components are
  finite numbers and \<open>None\<close> when they are \<^verbatim>\<open>NaN\<close>: a coordinate property that is missing
  or \<^verbatim>\<open>NaN\<close> enters every component of the Helmert result (each output row multiplies
  all three inputs), so all components of the result are \<^verbatim>\<open>NaN\<close> together.
\<close>

definition geographic_obj :: "geographic option \<Rightarrow> coords" where
  "geographic_obj r =
     (case r of
        Some g \<Rightarrow> [''lat'' \<mapsto> Num (geo_lat g), ''lon'' \<mapsto> Num (geo_lon g), ''h'' \<mapsto> Num (geo_h g)]
      | None \<Rightarrow> [''lat'' \<mapsto> NaN, ''lon'' \<mapsto> NaN, ''h'' \<mapsto> NaN])"

definition xyz_obj :: "xyz option \<Rightarrow> coords" where
  "xyz_obj r =
     (case r of
        Some v \<Rightarrow> [''x'' \<mapsto> Num (xyz_x v), ''y'' \<mapsto> Num (xyz_y v), ''z'' \<mapsto> Num (xyz_z v)]
      | None \<Rightarrow> [''x'' \<mapsto> NaN, ''y'' \<mapsto> NaN, ''z'' \<mapsto> NaN])"

text \<open>Step 1 of the pipeline: the Cartesian input, or a \<^verbatim>\<open>TypeError\<close> when
  \<^verbatim>\<open>getEllipsoidParams\<close> reads \<^verbatim>\<open>.a\<close> of an \<^verbatim>\<open>undefined\<close> ellipsoid.\<close>

definition input_xyz :: "coords \<Rightarrow> string \<Rightarrow> ellipsoid option \<Rightarrow> error + xyz option" where
  "input_xyz coords inputType fromEllipsoid =
     (if inputType = ''geographic'' then
        (case fromEllipsoid of
           None \<Rightarrow> Inl TypeError
         | Some ellipsoid \<Rightarrow>
             (case (toNumber (coords ''lat''), toNumber (coords ''lon'')) of
                (Some lat, Some lon) \<Rightarrow>
                  Inr (Some (geographicToGeocentric lat lon (or_zero (coords ''h'')) ellipsoid))
              | _ \<Rightarrow> Inr None))
      else
        (case (toNumber (coords ''x''), toNumber (coords ''y''), toNumber (coords ''z'')) of
           (Some x, Some y, Some z) \<Rightarrow> Inr (Some \<lparr>xyz_x = x, xyz_y = y, xyz_z = z\<rparr>)
         | _ \<Rightarrow> Inr None))"

text \<open>Step 2: one or two Helmert transformations; reading \<^verbatim>\<open>.viaWGS84\<close> of \<^verbatim>\<open>undefined\<close> or
  destructuring \<^verbatim>\<open>undefined\<close> parameters raises a \<^verbatim>\<open>TypeError\<close>.\<close>

definition apply_params :: "xyz option \<Rightarrow> trans_params \<Rightarrow> error + xyz option" where
  "apply_params v transParams =
     (case transParams of
        Null \<Rightarrow> Inl TypeError
      | Direct None \<Rightarrow> Inl TypeError
      | Direct (Some params) \<Rightarrow> Inr (map_option (\<lambda>u. helmertTransformation u params) v)
      | ViaWGS84 None fromWGS84 \<Rightarrow> Inl TypeError
      | ViaWGS84 (Some toW) fromWGS84 \<Rightarrow>
          Inr (map_option (\<lambda>u. helmertTransformation (helmertTransformation u toW) fromWGS84) v))"

text \<open>Step 3: back to geographic coordinates when that was the input type.\<close>

definition output_obj :: "xyz option \<Rightarrow> string \<Rightarrow> ellipsoid option \<Rightarrow> error + coords" where
  "output_obj transformedXYZ inputType toEllipsoid =
     (if inputType = ''geographic'' then
        (case toEllipsoid of
           None \<Rightarrow> Inl TypeError
         | Some ellipsoid \<Rightarrow>
             Inr (geographic_obj
                    (map_option (\<lambda>v. geocentricToGeographic (xyz_x v) (xyz_y v) (xyz_z v) ellipsoid)
                       transformedXYZ)))
      else Inr (xyz_obj transformedXYZ))"

definition lookup_ellipsoid :: "datum_prop \<Rightarrow> ellipsoid option" where
  "lookup_ellipsoid d = (case prop_ellipsoid d of None \<Rightarrow> None | Some n \<Rightarrow> ELLIPSOIDS n)"

definition transformDatum :: "coords \<Rightarrow> string \<Rightarrow> string \<Rightarrow> string \<Rightarrow> error + coords" where
  "transformDatum coords fromDatum toDatum inputType =
     (if fromDatum = toDatum then Inr coords
      else
        case (DATUMS_get fromDatum, DATUMS_get toDatum) of
          (Some fromDatumObj, Some toDatumObj) \<Rightarrow>
            (let fromEllipsoid = lookup_ellipsoid fromDatumObj;
                 toEllipsoid = lookup_ellipsoid toDatumObj
             in case getTransformationParams fromDatum toDatum of
                  Inl err \<Rightarrow> Inl err
                | Inr transParams \<Rightarrow>
                    (case input_xyz coords inputType fromEllipsoid of
                       Inl err \<Rightarrow> Inl err
                     | Inr v \<Rightarrow>
                         (case apply_params v transParams of
                            Inl err \<Rightarrow> Inl err
                          | Inr transformedXYZ \<Rightarrow> output_obj transformedXYZ inputType toEllipsoid)))
        | _ \<Rightarrow> Inl (Error (''Unknown datum: '' @ fromDatum @ '' or '' @ toDatum)))"

section \<open>Geodesic inverse problem (Vincenty)\<close>

record geodesic =
  distance :: real
  azimuth12 :: real
  azimuth21 :: real

text \<open>The variables the \<^verbatim>\<open>do ... while\<close> loop assigns on each pass.\<close>

record vincenty_vars =
  v_sinSigma :: real
  v_cosSigma :: real
  v_sigma :: real
  v_sinAlpha :: real
  v_cos2Alpha :: real
  v_cos2SigmaM :: real
  v_lambda :: real

text \<open>One pass of the loop body; \<open>None\<close> is the \<^verbatim>\<open>return\<close> taken when \<^verbatim>\<open>sinSigma === 0\<close>.\<close>

definition vincenty_body ::
  "real \<Rightarrow> real \<Rightarrow> real \<Rightarrow> real \<Rightarrow> real \<Rightarrow> real \<Rightarrow> real \<Rightarrow> vincenty_vars option" where
  "vincenty_body L f sinU1 cosU1 sinU2 cosU2 lambda =
     (let sinLambda = sin lambda;
          cosLambda = cos lambda;
          sinSigma = sqrt ((cosU2 * sinLambda) ^ 2 +
                           (cosU1 * sinU2 - sinU1 * cosU2 * cosLambda) ^ 2)
      in if sinSigma = 0 then None
         else
           let cosSigma = sinU1 * sinU2 + cosU1 * cosU2 * cosLambda;
               sigma = atan2 sinSigma cosSigma;
               sinAlpha = cosU1 * cosU2 * sinLambda / sinSigma;
               cos2Alpha = 1 - sinAlpha * sinAlpha;
               cos2SigmaM = (if cos2Alpha \<noteq> 0 then cosSigma - 2 * sinU1 * sinU2 / cos2Alpha else 0);
               C = f / 16 * cos2Alpha * (4 + f * (4 - 3 * cos2Alpha));
               lambda' = L + (1 - C) * f * sinAlpha *
                   (sigma + C * sinSigma *
                      (cos2SigmaM + C * cosSigma * (- 1 + 2 * cos2SigmaM * cos2SigmaM)))
           in Some \<lparr>v_sinSigma = sinSigma, v_cosSigma = cosSigma, v_sigma = sigma,
                    v_sinAlpha = sinAlpha, v_cos2Alpha = cos2Alpha,
                    v_cos2SigmaM = cos2SigmaM, v_lambda = lambda'\<rparr>)"

text \<open>How the loop is left: by the coincident-point \<^verbatim>\<open>return\<close>, or through the \<^verbatim>\<open>while\<close>
  condition with the variables of the last pass and the value of \<^verbatim>\<open>iterLimit\<close>.\<close>

datatype loop_exit = Coincident | Exit vincenty_vars int

text \<open>\<^verbatim>\<open>do { ... } while (Math.abs(lambda - lambdaP) > 1e-12 && --iterLimit > 0)\<close>: the
  decrement happens only when the first conjunct holds.\<close>

function vincenty_loop ::
  "real \<Rightarrow> real \<Rightarrow> real \<Rightarrow> real \<Rightarrow> real \<Rightarrow> real \<Rightarrow> real \<Rightarrow> int \<Rightarrow> loop_exit" where
  "vincenty_loop L f sinU1 cosU1 sinU2 cosU2 lambda iterLimit =
     (case vincenty_body L f sinU1 cosU1 sinU2 cosU2 lambda of
        None \<Rightarrow> Coincident
      | Some st \<Rightarrow>
          if \<bar>v_lambda st - lambda\<bar> > 0.000000000001 then
            (if iterLimit - 1 > 0
             then vincenty_loop L f sinU1 cosU1 sinU2 cosU2 (v_lambda st) (iterLimit - 1)
             else Exit st (iterLimit - 1))
          else Exit st iterLimit)"
  by pat_completeness auto
termination
  by (relation "measure (\<lambda>(L, f, sinU1, cosU1, sinU2, cosU2, lambda, iterLimit). nat iterLimit)") auto

declare vincenty_loop.simps [simp del]

definition vincentyDistance ::
  "real \<Rightarrow> real \<Rightarrow> real \<Rightarrow> real \<Rightarrow> ellipsoid \<Rightarrow> geodesic option" where
  "vincentyDistance lat1 lon1 lat2 lon2 ellipsoid =
     (let params = getEllipsoidParams ellipsoid;
          a = ell_a params;
          b = ell_b params;
          f = ell_f params;
          phi1 = toRadians lat1;
          phi2 = toRadians lat2;
          L = toRadians (lon2 - lon1);
          U1 = arctan ((1 - f) * tan phi1);
          U2 = arctan ((1 - f) * tan phi2);
          sinU1 = sin U1; cosU1 = cos U1;
          sinU2 = sin U2; cosU2 = cos U2
      in case vincenty_loop L f sinU1 cosU1 sinU2 cosU2 L 100 of
           Coincident \<Rightarrow> Some \<lparr>distance = 0, azimuth12 = 0, azimuth21 = 0\<rparr>
         | Exit st iterLimit \<Rightarrow>
             if iterLimit = 0 then None
             else
               let lambda = v_lambda st;
                   sinSigma = v_sinSigma st;
                   cosSigma = v_cosSigma st;
                   sigma = v_sigma st;
                   cos2Alpha = v_cos2Alpha st;
                   cos2SigmaM = v_cos2SigmaM st;
                   uSq = cos2Alpha * (a * a - b * b) / (b * b);
                   A = 1 + uSq / 16384 * (4096 + uSq * (- 768 + uSq * (320 - 175 * uSq)));
                   B = uSq / 1024 * (256 + uSq * (- 128 + uSq * (74 - 47 * uSq)));
                   deltaSigma = B * sinSigma *
                     (cos2SigmaM + B / 4 *
                        (cosSigma * (- 1 + 2 * cos2SigmaM * cos2SigmaM) -
                         B / 6 * cos2SigmaM * (- 3 + 4 * sinSigma * sinSigma) *
                           (- 3 + 4 * cos2SigmaM * cos2SigmaM)));
                   distance = b * A * (sigma - deltaSigma);
                   azimuth12 = atan2 (cosU2 * sin lambda)
                                 (cosU1 * sinU2 - sinU1 * cosU2 * cos lambda);
                   azimuth21 = atan2 (cosU1 * sin lambda)
                                 (- sinU1 * cosU2 + cosU1 * sinU2 * cos lambda)
               in Some \<lparr>distance = distance, azimuth12 = toDegrees azimuth12,
                         azimuth21 = toDegrees azimuth21\<rparr>)"

text \<open>The difference between one component of the round trip and the input component,
  as a polynomial in the scale \<open>k\<close>, the translations, the rotations (in radians) and the
  coordinates; the other two components are cyclic permutations of it.\<close>

definition residual ::
  "real \<Rightarrow> real \<Rightarrow> real \<Rightarrow> real \<Rightarrow> real \<Rightarrow> real \<Rightarrow> real \<Rightarrow> real \<Rightarrow> real \<Rightarrow> real \<Rightarrow> real" where
  "residual k t1 t2 t3 a b c x y z =
     - (k * t1) + (1 - k) * (c * t2 - b * t3)
     + (1 - k * k) * ((b * b + c * c) * x - a * b * y - a * c * z) - k * k * x"

text \<open>
  The claim about the iteration cap speaks of runs of the loop in which no pass converges.
  \<open>no_convergence \<dots> lambda n\<close> says that the next \<open>n\<close> passes, started at \<open>lambda\<close>, each
  compute a new \<open>lambda\<close> (no coincident-point \<^verbatim>\<open>return\<close>) that differs from the previous
  one by more than \<^verbatim>\<open>1e-12\<close>, which is the first conjunct of the \<^verbatim>\<open>while\<close> condition.
\<close>

fun no_convergence ::
  "real \<Rightarrow> real \<Rightarrow> real \<Rightarrow> real \<Rightarrow> real \<Rightarrow> real \<Rightarrow> real \<Rightarrow> nat \<Rightarrow> bool" where
  "no_convergence L f sinU1 cosU1 sinU2 cosU2 lambda 0 = True"
| "no_convergence L f sinU1 cosU1 sinU2 cosU2 lambda (Suc n) =
     (case vincenty_body L f sinU1 cosU1 sinU2 cosU2 lambda of
        None \<Rightarrow> False
      | Some st \<Rightarrow> \<bar>v_lambda st - lambda\<bar> > 0.000000000001 \<and>
                  no_convergence L f sinU1 cosU1 sinU2 cosU2 (v_lambda st) n)"

section \<open>Bounds for \<open>pi\<close>\<close>

lemma arctan_partial_sums:
  fixes x :: real
  assumes "0 < x" and "x \<le> 1"
  shows "(\<Sum>i<2*n. (- 1) ^ i * (1 / real (i * 2 + 1) * x ^ (i * 2 + 1))) \<le> arctan x"
    and "arctan x \<le> (\<Sum>i<2*n+1. (- 1) ^ i * (1 / real (i * 2 + 1) * x ^ (i * 2 + 1)))"
proof -
  have ax: "\<bar>x\<bar> \<le> 1" using assms by simp
  have pos: "0 < 1 / real (0 * 2 + 1) * x ^ (0 * 2 + 1)" using assms by simp
  from summable_Leibniz(2) [OF zeroseq_arctan_series [OF ax] monoseq_arctan_series [OF ax]] pos
  have "(\<Sum>i. (- 1) ^ i * (1 / real (i * 2 + 1) * x ^ (i * 2 + 1)))
          \<in> {\<Sum>i<2*n. (- 1) ^ i * (1 / real (i * 2 + 1) * x ^ (i * 2 + 1)) ..
              \<Sum>i<2*n+1. (- 1) ^ i * (1 / real (i * 2 + 1) * x ^ (i * 2 + 1))}"
    by blast
  then show "(\<Sum>i<2*n. (- 1) ^ i * (1 / real (i * 2 + 1) * x ^ (i * 2 + 1))) \<le> arctan x"
    and "arctan x \<le> (\<Sum>i<2*n+1. (- 1) ^ i * (1 / real (i * 2 + 1) * x ^ (i * 2 + 1)))"
    by (simp_all add: arctan_series [OF ax])
qed

lemma arctan_fifth_bounds:
  "0.1973955598498806 < arctan (1 / 5)" "arctan (1 / 5) < (0.1973955598498808 :: real)"
proof -
  have "(0.1973955598498806::real) < (\<Sum>i<2*5. (- 1) ^ i * (1 / real (i * 2 + 1) * (1 / 5) ^ (i * 2 + 1)))"
    by (simp add: eval_nat_numeral)
  also have "\<dots> \<le> arctan (1 / 5)" by (rule arctan_partial_sums) simp_all
  finally show "0.1973955598498806 < arctan (1 / 5)" .
  have "arctan (1 / 5) \<le> (\<Sum>i<2*5+1. (- 1) ^ i * (1 / real (i * 2 + 1) * (1 / 5) ^ (i * 2 + 1)))"
    by (rule arctan_partial_sums) simp_all
  also have "\<dots> < (0.1973955598498808::real)"
    by (simp add: eval_nat_numeral)
  finally show "arctan (1 / 5) < (0.1973955598498808 :: real)" .
qed

lemma arctan_239_bounds:
  "0.0041840760020747235 < arctan (1 / 239)" "arctan (1 / 239) < (0.0041840760020747242 :: real)"
proof -
  have "(0.0041840760020747235::real) < (\<Sum>i<2*2. (- 1) ^ i * (1 / real (i * 2 + 1) * (1 / 239) ^ (i * 2 + 1)))"
    by (simp add: eval_nat_numeral)
  also have "\<dots> \<le> arctan (1 / 239)" by (rule arctan_partial_sums) simp_all
  finally show "0.0041840760020747235 < arctan (1 / 239)" .
  have "arctan (1 / 239) \<le> (\<Sum>i<2*2+1. (- 1) ^ i * (1 / real (i * 2 + 1) * (1 / 239) ^ (i * 2 + 1)))"
    by (rule arctan_partial_sums) simp_all
  also have "\<dots> < (0.0041840760020747242::real)"
    by (simp add: eval_nat_numeral)
  finally show "arctan (1 / 239) < (0.0041840760020747242 :: real)" .
qed

lemma pi_bounds: "3.14159265358979 < pi" "pi < 3.14159265358980"
proof -
  have "pi = 16 * arctan (1 / 5) - 4 * arctan (1 / 239)"
    using machin by simp
  moreover note arctan_fifth_bounds [simplified] arctan_239_bounds [simplified]
  ultimately show "3.14159265358979 < pi" "pi < 3.14159265358980"
    by simp_all
qed

section \<open>Facts about \<open>atan2\<close>\<close>

lemma tan_minus_pi: "tan (t - pi) = tan t"
  using tan_periodic_pi [of "t - pi"] by simp

lemma atan2_pos: "0 < x \<Longrightarrow> atan2 y x = arctan (y / x)"
  by (simp add: atan2_def)

lemma atan2_neg_nonneg: "x < 0 \<Longrightarrow> 0 \<le> y \<Longrightarrow> atan2 y x = arctan (y / x) + pi"
  by (simp add: atan2_def)

lemma atan2_neg_neg: "x < 0 \<Longrightarrow> y < 0 \<Longrightarrow> atan2 y x = arctan (y / x) - pi"
  by (simp add: atan2_def)

lemma atan2_zero_pos: "0 < y \<Longrightarrow> atan2 y 0 = pi / 2"
  by (simp add: atan2_def)

lemma atan2_sin_cos:
  assumes "- pi < t" and "t \<le> pi" and "0 < r"
  shows "atan2 (r * sin t) (r * cos t) = t"
proof -
  have q: "r * sin t / (r * cos t) = tan t"
    using assms(3) by (simp add: tan_def)
  consider "- (pi / 2) < t \<and> t < pi / 2" | "t = pi / 2" | "t = - (pi / 2)"
    | "pi / 2 < t" | "t < - (pi / 2)"
    by linarith
  then show ?thesis
  proof cases
    case 1
    then have "0 < cos t" by (simp add: cos_gt_zero_pi)
    then have "0 < r * cos t" using assms(3) by simp
    then have "atan2 (r * sin t) (r * cos t) = arctan (tan t)"
      by (simp only: atan2_pos q)
    then show ?thesis using 1 by (simp add: arctan_tan)
  next
    case 2
    show ?thesis unfolding 2 using assms(3) by (simp add: atan2_def)
  next
    case 3
    show ?thesis unfolding 3 using assms(3) by (simp add: atan2_def)
  next
    case 4
    have "0 < cos (t - pi)" using 4 assms(2) pi_gt_zero by (intro cos_gt_zero_pi) linarith+
    then have c: "r * cos t < 0" using assms(3) by (simp add: mult_pos_neg)
    have "0 \<le> sin t" using 4 assms(2) pi_gt_zero by (intro sin_ge_zero) linarith+
    then have s: "0 \<le> r * sin t" using assms(3) by simp
    have "arctan (tan t) = t - pi"
    proof (rule arctan_unique)
      show "- (pi / 2) < t - pi" using 4 by linarith
      show "t - pi < pi / 2" using assms(2) pi_gt_zero by linarith
      show "tan (t - pi) = tan t" by (rule tan_minus_pi)
    qed
    moreover have "atan2 (r * sin t) (r * cos t) = arctan (tan t) + pi"
      using c s by (simp only: atan2_neg_nonneg q)
    ultimately show ?thesis by simp
  next
    case 5
    have "0 < cos (t + pi)" using 5 assms(1) pi_gt_zero by (intro cos_gt_zero_pi) linarith+
    then have c: "r * cos t < 0" using assms(3) by (simp add: mult_pos_neg)
    have "0 < sin (t + pi)" using 5 assms(1) pi_gt_zero by (intro sin_gt_zero) linarith+
    then have s: "r * sin t < 0" using assms(3) by (simp add: mult_pos_neg)
    have "arctan (tan t) = t + pi"
    proof (rule arctan_unique)
      show "- (pi / 2) < t + pi" using assms(1) pi_gt_zero by linarith
      show "t + pi < pi / 2" using 5 by linarith
      show "tan (t + pi) = tan t" by (rule tan_periodic_pi)
    qed
    moreover have "atan2 (r * sin t) (r * cos t) = arctan (tan t) - pi"
      using c s by (simp only: atan2_neg_neg q)
    ultimately show ?thesis by simp
  qed
qed


section \<open>The datum catalog\<close>

lemma DATUMS_get_None_iff:
  "DATUMS_get name = None \<longleftrightarrow> DATUMS name = None \<and> name \<notin> set Object_prototype_keys"
  by (simp add: DATUMS_get_def split: option.splits)

lemma DATUMS_get_Own: "DATUMS name = Some d \<Longrightarrow> DATUMS_get name = Some (Own d)"
  by (simp add: DATUMS_get_def)

section \<open>Identity datum\<close>

text \<open>
  Claim C6. For every coordinate object, every datum name \<open>D\<close> (registered or not) and every
  input type, \<open>transformDatum coords D D inputType\<close> returns a copy of \<open>coords\<close> with every
  property value unchanged: the first branch returns before any lookup or arithmetic.
\<close>

theorem transformDatum_same_datum:
  "transformDatum coords D D inputType = Inr coords"
  by (simp add: transformDatum_def)

section \<open>Unknown datums\<close>

text \<open>
  Claim C2, as stated, fails when the two unregistered names are equal: the equality test
  comes first and the call returns the copy of its input instead of raising.
\<close>

theorem transformDatum_unknown_equal_names:
  "DATUMS_get ''Atlantis'' = None \<and>
   transformDatum [''lat'' \<mapsto> Num 41, ''lon'' \<mapsto> Num 29] ''Atlantis'' ''Atlantis'' ''geographic''
     = Inr [''lat'' \<mapsto> Num 41, ''lon'' \<mapsto> Num 29]"
  by (simp add: transformDatum_def DATUMS_get_def DATUMS_def DATUMS_list_def
      Object_prototype_keys_def)

text \<open>
  Claim C2, amended. For two different datum names of which at least one names no property
  of the catalog object (it is neither a registered datum nor a name inherited from
  \<^verbatim>\<open>Object.prototype\<close>), \<open>transformDatum\<close> raises the \<^verbatim>\<open>Unknown datum\<close> error, whatever the
  coordinate and the input type are: no coordinate property is read before the error.
\<close>

theorem transformDatum_unknown_datum:
  assumes "fromDatum \<noteq> toDatum"
    and "DATUMS_get fromDatum = None \<or> DATUMS_get toDatum = None"
  shows "transformDatum coords fromDatum toDatum inputType
           = Inl (Error (''Unknown datum: '' @ fromDatum @ '' or '' @ toDatum))"
  using assms by (auto simp: transformDatum_def split: option.splits)

theorem transformDatum_unknown_datum_witness:
  "''Atlantis'' \<noteq> ''WGS84'' \<and> DATUMS_get ''Atlantis'' = None \<and>
   transformDatum [''lat'' \<mapsto> Num 41, ''lon'' \<mapsto> Num 29] ''Atlantis'' ''WGS84'' ''geographic''
     = Inl (Error ''Unknown datum: Atlantis or WGS84'')"
proof -
  have ne: "''Atlantis'' \<noteq> ''WGS84''" by simp
  have un: "DATUMS_get ''Atlantis'' = None"
    by (simp add: DATUMS_get_def DATUMS_def DATUMS_list_def Object_prototype_keys_def)
  from transformDatum_unknown_datum [OF ne disjI1 [OF un]] ne un
  show ?thesis by simp
qed

section \<open>Registered datums\<close>

lemma getTransformationParams_registered:
  assumes "fromDatum \<noteq> toDatum" and "DATUMS fromDatum = Some d1" and "DATUMS toDatum = Some d2"
  shows "getTransformationParams fromDatum toDatum =
           Inr (if toDatum = ''WGS84'' then Direct (Some (toWGS84 d1))
                else if fromDatum = ''WGS84'' then Direct (Some (negate_params (toWGS84 d2)))
                else ViaWGS84 (Some (toWGS84 d1)) (negate_params (toWGS84 d2)))"
  using assms by (simp add: getTransformationParams_def getDatum_def DATUMS_get_Own)

lemma apply_params_registered:
  "\<exists>w. apply_params v
          (if c1 then Direct (Some p1) else if c2 then Direct (Some p2) else ViaWGS84 (Some p3) p4)
        = Inr w"
  by (simp add: apply_params_def)

lemma input_xyz_height:
  assumes "coords ''h'' = None \<or> coords ''h'' = Some Undefined"
  shows "input_xyz coords inputType e = input_xyz (coords(''h'' \<mapsto> Num 0)) inputType e"
  using assms by (auto simp: input_xyz_def split: option.splits)

lemma input_xyz_defined: "\<exists>v. input_xyz coords inputType (Some e) = Inr v"
  by (simp add: input_xyz_def split: option.splits)

section \<open>Missing height\<close>

text \<open>
  Claim C10, as stated, fails when source and target are the same name: the call returns the
  copy of its input, so the result of the call without a height has no \<^verbatim>\<open>h\<close> property while
  the result of the call with height 0 has \<^verbatim>\<open>h: 0\<close>; no conversion takes place at all.
\<close>

theorem transformDatum_missing_height_same_datum:
  "transformDatum [''lat'' \<mapsto> Num 41, ''lon'' \<mapsto> Num 29] ''WGS84'' ''WGS84'' ''geographic''
     \<noteq> transformDatum [''lat'' \<mapsto> Num 41, ''lon'' \<mapsto> Num 29, ''h'' \<mapsto> Num 0]
           ''WGS84'' ''WGS84'' ''geographic''"
proof -
  have "[''lat'' \<mapsto> Num 41, ''lon'' \<mapsto> Num 29] ''h''
          \<noteq> [''lat'' \<mapsto> Num 41, ''lon'' \<mapsto> Num 29, ''h'' \<mapsto> Num 0] ''h''"
    by simp
  then have "[''lat'' \<mapsto> Num 41, ''lon'' \<mapsto> Num 29]
               \<noteq> [''lat'' \<mapsto> Num 41, ''lon'' \<mapsto> Num (29::real), ''h'' \<mapsto> Num 0]"
    by metis
  then show ?thesis
    by (simp only: transformDatum_same_datum sum.inject simp_thms)
qed

text \<open>
  Claim C10, amended. For a geographic-mode call between two different datum names whose
  coordinate has no \<^verbatim>\<open>h\<close> property, or has \<^verbatim>\<open>h: undefined\<close>, the outcome (value or error) is the
  outcome of the same call with \<^verbatim>\<open>h: 0\<close>. When moreover both names are registered datums
  whose ellipsoids are in the ellipsoid catalog, the call returns a coordinate, and for
  numeric latitude and longitude the geographic-to-geocentric conversion is evaluated at
  height exactly 0.
\<close>

theorem transformDatum_missing_height:
  assumes "fromDatum \<noteq> toDatum"
    and "coords ''h'' = None \<or> coords ''h'' = Some Undefined"
  shows "transformDatum coords fromDatum toDatum ''geographic''
           = transformDatum (coords(''h'' \<mapsto> Num 0)) fromDatum toDatum ''geographic'' \<and>
         (DATUMS fromDatum = Some d1 \<and> DATUMS toDatum = Some d2 \<and>
          ELLIPSOIDS (dat_ellipsoid d1) = Some e1 \<and> ELLIPSOIDS (dat_ellipsoid d2) = Some e2 \<longrightarrow>
            (\<exists>r. transformDatum coords fromDatum toDatum ''geographic'' = Inr r) \<and>
            (coords ''lat'' = Some (Num lat) \<and> coords ''lon'' = Some (Num lon) \<longrightarrow>
               input_xyz coords ''geographic'' (lookup_ellipsoid (Own d1))
                 = Inr (Some (geographicToGeocentric lat lon 0 e1))))"
proof (intro conjI impI)
  show "transformDatum coords fromDatum toDatum ''geographic''
          = transformDatum (coords(''h'' \<mapsto> Num 0)) fromDatum toDatum ''geographic''"
    proof -
    have "\<And>e. input_xyz (coords(''h'' \<mapsto> Num 0)) ''geographic'' e
                = input_xyz coords ''geographic'' e"
      using input_xyz_height [of coords] assms(2) by simp
    then show ?thesis using assms(1) by (simp add: transformDatum_def Let_def cong: option.case_cong sum.case_cong)
  qed
next
  assume reg: "DATUMS fromDatum = Some d1 \<and> DATUMS toDatum = Some d2 \<and>
    ELLIPSOIDS (dat_ellipsoid d1) = Some e1 \<and> ELLIPSOIDS (dat_ellipsoid d2) = Some e2"
  obtain v where v: "input_xyz coords ''geographic'' (Some e1) = Inr v"
    using input_xyz_defined by blast
  obtain w where w: "apply_params v
       (if toDatum = ''WGS84'' then Direct (Some (toWGS84 d1))
        else if fromDatum = ''WGS84'' then Direct (Some (negate_params (toWGS84 d2)))
        else ViaWGS84 (Some (toWGS84 d1)) (negate_params (toWGS84 d2))) = Inr w"
    using apply_params_registered by blast
  show "\<exists>r. transformDatum coords fromDatum toDatum ''geographic'' = Inr r"
    using assms(1) reg v w
    by (simp add: transformDatum_def DATUMS_get_Own lookup_ellipsoid_def
        getTransformationParams_registered output_obj_def)
next
  assume reg: "DATUMS fromDatum = Some d1 \<and> DATUMS toDatum = Some d2 \<and>
    ELLIPSOIDS (dat_ellipsoid d1) = Some e1 \<and> ELLIPSOIDS (dat_ellipsoid d2) = Some e2"
    and num: "coords ''lat'' = Some (Num lat) \<and> coords ''lon'' = Some (Num lon)"
  show "input_xyz coords ''geographic'' (lookup_ellipsoid (Own d1))
          = Inr (Some (geographicToGeocentric lat lon 0 e1))"
    using assms(2) reg num by (auto simp: input_xyz_def lookup_ellipsoid_def)
qed

theorem transformDatum_missing_height_witness:
  "transformDatum [''lat'' \<mapsto> Num 41, ''lon'' \<mapsto> Num 29] ''ED50'' ''WGS84'' ''geographic''
     = transformDatum [''lat'' \<mapsto> Num 41, ''lon'' \<mapsto> Num 29, ''h'' \<mapsto> Num 0]
         ''ED50'' ''WGS84'' ''geographic'' \<and>
   (\<exists>r. transformDatum [''lat'' \<mapsto> Num 41, ''lon'' \<mapsto> Num 29] ''ED50'' ''WGS84'' ''geographic''
          = Inr r) \<and>
   input_xyz [''lat'' \<mapsto> Num 41, ''lon'' \<mapsto> Num 29] ''geographic'' (ELLIPSOIDS ''ED50'')
     = Inr (Some (geographicToGeocentric 41 29 0
         \<lparr>ell_name = ''International 1924 (Hayford)'', ell_a = 6378388.0, ell_f = 1 / 297.0\<rparr>))"
proof -
  let ?c = "[''lat'' \<mapsto> Num 41, ''lon'' \<mapsto> Num (29::real)]"
  let ?d1 = "\<lparr>dat_name = ''ED50'', dat_ellipsoid = ''ED50'',
    toWGS84 = \<lparr>tx = -84.0, ty = -103.0, tz = -127.0, rx = 0, ry = 0, rz = 0, s_ppm = 0\<rparr>\<rparr>"
  let ?d2 = "\<lparr>dat_name = ''WGS84'', dat_ellipsoid = ''WGS84'', toWGS84 = zero_params\<rparr>"
  let ?e1 = "\<lparr>ell_name = ''International 1924 (Hayford)'', ell_a = 6378388.0, ell_f = 1 / 297.0\<rparr>"
  let ?e2 = "\<lparr>ell_name = ''WGS84'', ell_a = 6378137.0, ell_f = 1 / 298.257223563\<rparr>"
  have ne: "''ED50'' \<noteq> ''WGS84''" by simp
  have h: "?c ''h'' = None \<or> ?c ''h'' = Some Undefined" by simp
  have d1: "DATUMS ''ED50'' = Some ?d1" by (simp add: DATUMS_def DATUMS_list_def)
  have d2: "DATUMS ''WGS84'' = Some ?d2" by (simp add: DATUMS_def DATUMS_list_def)
  have e1: "ELLIPSOIDS ''ED50'' = Some ?e1" by (simp add: ELLIPSOIDS_def)
  have e2: "ELLIPSOIDS ''WGS84'' = Some ?e2" by (simp add: ELLIPSOIDS_def)
  have l: "lookup_ellipsoid (Own ?d1) = ELLIPSOIDS ''ED50''" by (simp add: lookup_ellipsoid_def)
  have n: "?c ''lat'' = Some (Num 41) \<and> ?c ''lon'' = Some (Num 29)" by simp
  have q: "DATUMS ''ED50'' = Some ?d1 \<and> DATUMS ''WGS84'' = Some ?d2 \<and>
      ELLIPSOIDS (dat_ellipsoid ?d1) = Some ?e1 \<and> ELLIPSOIDS (dat_ellipsoid ?d2) = Some ?e2"
    using d1 d2 e1 e2 by simp
  from transformDatum_missing_height [of "''ED50''" "''WGS84''" ?c ?d1 ?d2 ?e1 ?e2 41 29, OF ne h]
    q n
  have "transformDatum ?c ''ED50'' ''WGS84'' ''geographic''
          = transformDatum (?c(''h'' \<mapsto> Num 0)) ''ED50'' ''WGS84'' ''geographic'' \<and>
        (\<exists>r. transformDatum ?c ''ED50'' ''WGS84'' ''geographic'' = Inr r) \<and>
        input_xyz ?c ''geographic'' (lookup_ellipsoid (Own ?d1))
          = Inr (Some (geographicToGeocentric 41 29 0 ?e1))"
    by blast
  then show ?thesis unfolding l .
qed

section \<open>Helmert transformation with zero parameters\<close>



text \<open>The model with the sign of zero agrees in value with the model over the reals.\<close>

lemma num_of_zero_of [simp]: "num_of (zero_of b) = 0"
  by (simp add: zero_of_def)

lemma num_of_js_mul [simp]: "num_of (js_mul a b) = num_of a * num_of b"
  by (simp add: js_mul_def)

lemma num_of_js_add [simp]: "num_of (js_add a b) = num_of a + num_of b"
  by (simp add: js_add_def)

lemma num_of_js_neg [simp]: "num_of (js_neg a) = - num_of a"
  by (simp add: js_neg_def)

lemma num_of_js_sub [simp]: "num_of (js_sub a b) = num_of a - num_of b"
  by (simp add: js_sub_def)

lemma helmertTransformation_js_num:
  "\<lparr>xyz_x = num_of (js_x (helmertTransformation_js v P)),
    xyz_y = num_of (js_y (helmertTransformation_js v P)),
    xyz_z = num_of (js_z (helmertTransformation_js v P))\<rparr>
   = helmertTransformation
       \<lparr>xyz_x = num_of (js_x v), xyz_y = num_of (js_y v), xyz_z = num_of (js_z v)\<rparr>
       \<lparr>tx = num_of (js_tx P), ty = num_of (js_ty P), tz = num_of (js_tz P),
        rx = num_of (js_rx P), ry = num_of (js_ry P), rz = num_of (js_rz P),
        s_ppm = num_of (js_s P)\<rparr>"
  by (simp add: helmertTransformation_js_def helmertTransformation_def Let_def)








section \<open>Coincident geodesic endpoints\<close>

lemma vincenty_body_coincident: "vincenty_body 0 f sinU cosU sinU cosU 0 = None"
  by (simp add: vincenty_body_def)

text \<open>
  Claim C8. For every point and every ellipsoid (in particular every catalog ellipsoid),
  \<open>vincentyDistance\<close> on two identical endpoints returns distance 0 and both azimuths 0, and
  the loop is left on its first pass through the coincident-point \<^verbatim>\<open>return\<close>: neither the
  iteration cap nor the \<^verbatim>\<open>null\<close> result is reached.
\<close>

theorem vincentyDistance_identical_points:
  "vincentyDistance lat lon lat lon ellipsoid
     = Some \<lparr>distance = 0, azimuth12 = 0, azimuth21 = 0\<rparr> \<and>
   vincenty_loop (toRadians (lon - lon)) (ell_f ellipsoid)
       (sin (arctan ((1 - ell_f ellipsoid) * tan (toRadians lat))))
       (cos (arctan ((1 - ell_f ellipsoid) * tan (toRadians lat))))
       (sin (arctan ((1 - ell_f ellipsoid) * tan (toRadians lat))))
       (cos (arctan ((1 - ell_f ellipsoid) * tan (toRadians lat))))
       (toRadians (lon - lon)) 100
     = Coincident"
  by (simp add: vincentyDistance_def getEllipsoidParams_def toRadians_def
      vincenty_loop.simps vincenty_body_coincident Let_def)

section \<open>The iteration cap\<close>

lemma no_convergence_cap:
  "no_convergence L f sinU1 cosU1 sinU2 cosU2 lambda (Suc n) \<Longrightarrow>
     \<exists>st. vincenty_loop L f sinU1 cosU1 sinU2 cosU2 lambda (1 + int n) = Exit st 0"
proof (induction n arbitrary: lambda)
  case 0
  then show ?case by (auto simp: vincenty_loop.simps split: option.splits)
next
  case (Suc n)
  from Suc.prems obtain st where
    st: "vincenty_body L f sinU1 cosU1 sinU2 cosU2 lambda = Some st"
    and d: "\<bar>v_lambda st - lambda\<bar> > 0.000000000001"
    and nc: "no_convergence L f sinU1 cosU1 sinU2 cosU2 (v_lambda st) (Suc n)"
    by (auto split: option.splits)
  from Suc.IH [OF nc] obtain st' where
    "vincenty_loop L f sinU1 cosU1 sinU2 cosU2 (v_lambda st) (1 + int n) = Exit st' 0"
    by blast
  then show ?case
    using st d
    by (subst vincenty_loop.simps) simp
qed

lemma cap_no_convergence:
  "vincenty_loop L f sinU1 cosU1 sinU2 cosU2 lambda (1 + int n) = Exit st 0 \<Longrightarrow>
     no_convergence L f sinU1 cosU1 sinU2 cosU2 lambda (Suc n)"
proof (induction n arbitrary: lambda)
  case 0
  then show ?case 
    by (subst (asm) vincenty_loop.simps) (auto split: option.splits if_splits)
next
  case (Suc n)
  from Suc.prems show ?case
    apply (subst (asm) vincenty_loop.simps)
    apply (auto split: option.splits if_splits dest!: Suc.IH)
    done
qed

lemma vincenty_body_equator_east:
  assumes "0 < lam" and "lam < pi"
  shows "vincenty_body L f 0 1 0 1 lam =
           Some \<lparr>v_sinSigma = sin lam, v_cosSigma = cos lam, v_sigma = lam, v_sinAlpha = 1,
                 v_cos2Alpha = 0, v_cos2SigmaM = 0, v_lambda = L + f * lam\<rparr>"
proof -
  have s: "0 < sin lam" using assms by (rule sin_gt_zero)
  have "atan2 (1 * sin lam) (1 * cos lam) = lam"
    using assms pi_gt_zero by (intro atan2_sin_cos) linarith+
  then have a: "atan2 (sin lam) (cos lam) = lam" by simp
  show ?thesis using s by (simp add: vincenty_body_def Let_def a)
qed

lemma vincenty_body_equator_west:
  assumes "pi < lam" and "lam < 2 * pi"
  shows "vincenty_body L f 0 1 0 1 lam =
           Some \<lparr>v_sinSigma = - sin lam, v_cosSigma = cos lam, v_sigma = 2 * pi - lam,
                 v_sinAlpha = - 1, v_cos2Alpha = 0, v_cos2SigmaM = 0,
                 v_lambda = L - f * (2 * pi - lam)\<rparr>"
proof -
  have s: "sin lam < 0" using assms by (rule sin_lt_zero)
  have "atan2 (1 * sin (2 * pi - lam)) (1 * cos (2 * pi - lam)) = 2 * pi - lam"
    using assms pi_gt_zero by (intro atan2_sin_cos) linarith+
  then have a: "atan2 (- sin lam) (cos lam) = 2 * pi - lam" by simp
  have d: "sin lam / (- sin lam) = - 1" using s by (simp add: field_simps)
  show ?thesis using s by (simp add: vincenty_body_def Let_def a)
qed

lemma equator_antipodal_no_convergence:
  assumes L: "L = 1797 / 10 * (pi / 180)" and f: "f = 1 / 298.257223563"
    and "(99 / 100 * pi \<le> lam \<and> lam < pi) \<or> (pi < lam \<and> lam \<le> 101 / 100 * pi)"
  shows "no_convergence L f 0 1 0 1 lam n"
  using assms(3)
proof (induction n arbitrary: lam)
  case 0
  show ?case by simp
next
  case (Suc n)
  have pi3: "3 < pi" "pi < 4" using pi_bounds by simp_all
  from Suc.prems show ?case
  proof (elim disjE conjE)
    assume low: "99 / 100 * pi \<le> lam" "lam < pi"
    then have pos: "0 < lam" using pi_gt_zero by linarith
    have "pi < L + f * lam" using low pi3 unfolding L f by (simp add: field_simps)
    moreover have "L + f * lam \<le> 101 / 100 * pi"
      using low pi3 unfolding L f by (simp add: field_simps)
    ultimately have nc: "no_convergence L f 0 1 0 1 (L + f * lam) n"
      by (intro Suc.IH disjI2 conjI)
    have "L + f * lam - lam > 0.000000000001"
      using low pi3 unfolding L f by (simp add: field_simps)
    then have d: "\<bar>L + f * lam - lam\<bar> > 0.000000000001" by linarith
    show ?thesis
      by (simp only: no_convergence.simps vincenty_body_equator_east [OF pos low(2)]
          option.case vincenty_vars.simps nc d simp_thms)
  next
    assume high: "pi < lam" "lam \<le> 101 / 100 * pi"
    then have lt: "lam < 2 * pi" using pi_gt_zero by linarith
    have "99 / 100 * pi \<le> L - f * (2 * pi - lam)"
      using high pi3 unfolding L f by (simp add: field_simps)
    moreover have "L - f * (2 * pi - lam) < pi"
      using high pi3 unfolding L f by (simp add: field_simps)
    ultimately have nc: "no_convergence L f 0 1 0 1 (L - f * (2 * pi - lam)) n"
      by (intro Suc.IH disjI1 conjI)
    have "lam - (L - f * (2 * pi - lam)) > 0.000000000001"
      using high pi3 unfolding L f by (simp add: field_simps)
    then have d: "\<bar>L - f * (2 * pi - lam) - lam\<bar> > 0.000000000001" by linarith
    show ?thesis
      by (simp only: no_convergence.simps vincenty_body_equator_west [OF high(1) lt]
          option.case vincenty_vars.simps nc d simp_thms)
  qed
qed

text \<open>
  Claim C7. \<open>vincentyDistance\<close> returns \<^verbatim>\<open>null\<close> (here \<open>None\<close>) exactly when the loop runs its
  100 passes without any of them converging, that is when \<^verbatim>\<open>iterLimit\<close> is counted down to
  0; in every other case it returns a distance/azimuth record. A pass counts as converged
  when \<^verbatim>\<open>Math.abs(lambda - lambdaP) > 1e-12\<close> is false.
\<close>

theorem vincentyDistance_null_iff:
  fixes lat1 lon1 lat2 lon2 :: real and ellipsoid :: ellipsoid
  defines "f \<equiv> ell_f ellipsoid"
    and "L \<equiv> toRadians (lon2 - lon1)"
  defines "U1 \<equiv> arctan ((1 - f) * tan (toRadians lat1))"
    and "U2 \<equiv> arctan ((1 - f) * tan (toRadians lat2))"
  shows "(vincentyDistance lat1 lon1 lat2 lon2 ellipsoid = None)
           = no_convergence L f (sin U1) (cos U1) (sin U2) (cos U2) L 100"
proof -
  have "(\<exists>st. vincenty_loop L f (sin U1) (cos U1) (sin U2) (cos U2) L (1 + int 99) = Exit st 0)
          = no_convergence L f (sin U1) (cos U1) (sin U2) (cos U2) L (Suc 99)"
    using no_convergence_cap cap_no_convergence by blast
  moreover have "(vincentyDistance lat1 lon1 lat2 lon2 ellipsoid = None)
      = (\<exists>st. vincenty_loop L f (sin U1) (cos U1) (sin U2) (cos U2) L 100 = Exit st 0)"
    unfolding f_def L_def U1_def U2_def
    by (auto simp: vincentyDistance_def getEllipsoidParams_def Let_def
        split: loop_exit.splits)
  ultimately show ?thesis by simp
qed

theorem vincentyDistance_null_witness:
  "vincentyDistance 0 0 0 179.7 WGS84 = None"
proof -
  have "no_convergence (1797 / 10 * (pi / 180)) (1 / 298.257223563) 0 1 0 1
          (1797 / 10 * (pi / 180)) 100"
    using pi_gt_zero by (intro equator_antipodal_no_convergence disjI1) simp_all
  then show ?thesis
    using vincentyDistance_null_iff [of 0 0 0 "179.7" WGS84]
    by (simp add: WGS84_def toRadians_def DEG2RAD_def)
qed

section \<open>Helmert transformation followed by its inverse\<close>

lemma abs_prod_le:
  fixes p q :: real
  assumes "\<bar>p\<bar> \<le> P" and "\<bar>q\<bar> \<le> Q"
  shows "\<bar>p * q\<bar> \<le> P * Q"
  using assms by (simp add: abs_mult mult_mono)

lemma abs_sum4_le:
  fixes A B C D :: real
  assumes "\<bar>A\<bar> \<le> a" and "\<bar>B\<bar> \<le> b" and "\<bar>C\<bar> \<le> c" and "\<bar>D\<bar> \<le> d"
  shows "\<bar>- A + B + C - D\<bar> \<le> a + b + c + d"
  using assms by linarith

lemma abs_diff_le:
  fixes A B :: real
  assumes "\<bar>A\<bar> \<le> a" and "\<bar>B\<bar> \<le> b"
  shows "\<bar>A - B\<bar> \<le> a + b"
  using assms by linarith

lemma residual_bound:
  fixes k t1 t2 t3 a b c x y z :: real
  assumes k: "\<bar>k\<bar> \<le> K" and K: "K \<le> 1"
    and t: "\<bar>t1\<bar> \<le> T" "\<bar>t2\<bar> \<le> T" "\<bar>t3\<bar> \<le> T"
    and r: "\<bar>a\<bar> \<le> R" "\<bar>b\<bar> \<le> R" "\<bar>c\<bar> \<le> R"
    and v: "\<bar>x\<bar> \<le> D" "\<bar>y\<bar> \<le> D" "\<bar>z\<bar> \<le> D"
  shows "\<bar>residual k t1 t2 t3 a b c x y z\<bar>
         \<le> K * T + (1 + K) * (R * T + R * T)
             + 1 * (R * R * D + R * R * D + (R * R * D + R * R * D)) + K * K * D"
proof -
  have K0: "0 \<le> K" using k by linarith
  have 1: "\<bar>k * t1\<bar> \<le> K * T" by (intro abs_prod_le k t)
  have k2: "\<bar>1 - k\<bar> \<le> 1 + K" using k by linarith
  have cb: "\<bar>c * t2 - b * t3\<bar> \<le> R * T + R * T"
    by (intro abs_diff_le abs_prod_le r t)
  have 2: "\<bar>(1 - k) * (c * t2 - b * t3)\<bar> \<le> (1 + K) * (R * T + R * T)"
    by (rule abs_prod_le [OF k2 cb])
  have kk: "\<bar>k * k\<bar> \<le> K * K" by (intro abs_prod_le k)
  have "0 \<le> k * k" by simp
  moreover have "K * K \<le> 1" using K K0 by (simp add: mult_le_one)
  ultimately have k1: "\<bar>1 - k * k\<bar> \<le> 1" using kk by linarith
  have "\<bar>b * b * x + c * c * x\<bar> \<le> R * R * D + R * R * D"
    using abs_prod_le [OF abs_prod_le [OF r(2) r(2)] v(1)]
      abs_prod_le [OF abs_prod_le [OF r(3) r(3)] v(1)] by linarith
  then have "\<bar>(b * b + c * c) * x\<bar> \<le> R * R * D + R * R * D"
    by (simp add: distrib_right)
  moreover have "\<bar>a * b * y + a * c * z\<bar> \<le> R * R * D + R * R * D"
    using abs_prod_le [OF abs_prod_le [OF r(1) r(2)] v(2)]
      abs_prod_le [OF abs_prod_le [OF r(1) r(3)] v(3)] by linarith
  ultimately have "\<bar>(b * b + c * c) * x - (a * b * y + a * c * z)\<bar>
      \<le> R * R * D + R * R * D + (R * R * D + R * R * D)"
    by (rule abs_diff_le)
  then have q: "\<bar>(b * b + c * c) * x - a * b * y - a * c * z\<bar>
      \<le> R * R * D + R * R * D + (R * R * D + R * R * D)"
    by (simp add: diff_diff_eq)
  have 3: "\<bar>(1 - k * k) * ((b * b + c * c) * x - a * b * y - a * c * z)\<bar>
      \<le> 1 * (R * R * D + R * R * D + (R * R * D + R * R * D))"
    by (intro abs_prod_le k1 q)
  have 4: "\<bar>k * k * x\<bar> \<le> K * K * D" by (intro abs_prod_le kk v)
  show ?thesis unfolding residual_def by (rule abs_sum4_le [OF 1 2 3 4])
qed

lemma helmert_compose_algebra:
  fixes a b c k t1 t2 t3 x y z :: real
  defines "u \<equiv> t1 + (1 + k) * (x - c * y + b * z)"
    and "v \<equiv> t2 + (1 + k) * (c * x + y - a * z)"
    and "w \<equiv> t3 + (1 + k) * (- b * x + a * y + z)"
  shows "- t1 + (1 + - k) * (u - (- c) * v + (- b) * w) - x = residual k t1 t2 t3 a b c x y z"
    and "- t2 + (1 + - k) * ((- c) * u + v - (- a) * w) - y = residual k t2 t3 t1 b c a y z x"
    and "- t3 + (1 + - k) * (- (- b) * u + (- a) * v + w) - z = residual k t3 t1 t2 c a b z x y"
  unfolding u_def v_def w_def residual_def by algebra+

lemma helmert_round_trip:
  fixes x y z :: real and P :: helmert_params
  defines "a \<equiv> rx P * ARCSEC2RAD" and "b \<equiv> ry P * ARCSEC2RAD" and "c \<equiv> rz P * ARCSEC2RAD"
    and "k \<equiv> s_ppm P * 0.000001"
    and "r \<equiv> inverseHelmertTransformation
                 (helmertTransformation \<lparr>xyz_x = x, xyz_y = y, xyz_z = z\<rparr> P) P"
  shows "xyz_x r - x = residual k (tx P) (ty P) (tz P) a b c x y z"
    and "xyz_y r - y = residual k (ty P) (tz P) (tx P) b c a y z x"
    and "xyz_z r - z = residual k (tz P) (tx P) (ty P) c a b z x y"
proof -
  let ?u = "tx P + (1 + k) * (x - c * y + b * z)"
  let ?v = "ty P + (1 + k) * (c * x + y - a * z)"
  let ?w = "tz P + (1 + k) * (- b * x + a * y + z)"
  have "xyz_x r - x = - tx P + (1 + - k) * (?u - (- c) * ?v + (- b) * ?w) - x"
    unfolding a_def b_def c_def k_def r_def
    by (simp add: inverseHelmertTransformation_def helmertTransformation_def Let_def)
  then show "xyz_x r - x = residual k (tx P) (ty P) (tz P) a b c x y z"
    by (simp only: helmert_compose_algebra)
  have "xyz_y r - y = - ty P + (1 + - k) * ((- c) * ?u + ?v - (- a) * ?w) - y"
    unfolding a_def b_def c_def k_def r_def
    by (simp add: inverseHelmertTransformation_def helmertTransformation_def Let_def)
  then show "xyz_y r - y = residual k (ty P) (tz P) (tx P) b c a y z x"
    by (simp only: helmert_compose_algebra)
  have "xyz_z r - z = - tz P + (1 + - k) * (- (- b) * ?u + (- a) * ?v + ?w) - z"
    unfolding a_def b_def c_def k_def r_def
    by (simp add: inverseHelmertTransformation_def helmertTransformation_def Let_def)
  then show "xyz_z r - z = residual k (tz P) (tx P) (ty P) c a b z x y"
    by (simp only: helmert_compose_algebra)
qed

lemma helmert_round_trip_translation_only:
  assumes "rx P = 0" and "ry P = 0" and "rz P = 0" and "s_ppm P = 0"
  shows "inverseHelmertTransformation (helmertTransformation v P) P = v"
  using assms by (simp add: inverseHelmertTransformation_def helmertTransformation_def Let_def)

lemma ARCSEC2RAD_bounds: "0 < ARCSEC2RAD" "ARCSEC2RAD < 0.00000484814"
  using pi_bounds by (simp_all add: ARCSEC2RAD_def)

lemma helmert_round_trip_within:
  fixes x y z :: real and P :: helmert_params
  defines "r \<equiv> inverseHelmertTransformation
                 (helmertTransformation \<lparr>xyz_x = x, xyz_y = y, xyz_z = z\<rparr> P) P"
  assumes k: "\<bar>s_ppm P * 0.000001\<bar> \<le> K" and K: "K \<le> 1"
    and t: "\<bar>tx P\<bar> \<le> T" "\<bar>ty P\<bar> \<le> T" "\<bar>tz P\<bar> \<le> T"
    and rot: "\<bar>rx P * ARCSEC2RAD\<bar> \<le> R" "\<bar>ry P * ARCSEC2RAD\<bar> \<le> R" "\<bar>rz P * ARCSEC2RAD\<bar> \<le> R"
    and v: "\<bar>x\<bar> \<le> D" "\<bar>y\<bar> \<le> D" "\<bar>z\<bar> \<le> D"
    and e: "K * T + (1 + K) * (R * T + R * T)
             + 1 * (R * R * D + R * R * D + (R * R * D + R * R * D)) + K * K * D \<le> eps"
  shows "\<bar>xyz_x r - x\<bar> \<le> eps \<and> \<bar>xyz_y r - y\<bar> \<le> eps \<and> \<bar>xyz_z r - z\<bar> \<le> eps"
  unfolding r_def helmert_round_trip
  using residual_bound [OF k K t(1) t(2) t(3) rot(1) rot(2) rot(3) v(1) v(2) v(3)]
    residual_bound [OF k K t(2) t(3) t(1) rot(2) rot(3) rot(1) v(2) v(3) v(1)]
    residual_bound [OF k K t(3) t(1) t(2) rot(3) rot(1) rot(2) v(3) v(1) v(2)] e
  by linarith


lemma DATUMS_params_cases:
  assumes "DATUMS name = Some d"
  shows "(rx (toWGS84 d) = 0 \<and> ry (toWGS84 d) = 0 \<and> rz (toWGS84 d) = 0 \<and> s_ppm (toWGS84 d) = 0)
         \<or> (name = ''OSGB36'' \<and> toWGS84 d = \<lparr>tx = 446.448, ty = -125.157, tz = 542.060,
                    rx = 0.1502, ry = 0.2470, rz = 0.8421, s_ppm = -20.4894\<rparr>)
         \<or> (name = ''Pulkovo1942'' \<and> toWGS84 d = \<lparr>tx = 23.92, ty = -141.27, tz = -80.9,
                    rx = 0, ry = 0.35, rz = 0.82, s_ppm = -0.12\<rparr>)"
proof -
  have "\<forall>(n, e) \<in> set DATUMS_list.
      (rx (toWGS84 e) = 0 \<and> ry (toWGS84 e) = 0 \<and> rz (toWGS84 e) = 0 \<and> s_ppm (toWGS84 e) = 0)
         \<or> (n = ''OSGB36'' \<and> toWGS84 e = \<lparr>tx = 446.448, ty = -125.157, tz = 542.060,
                    rx = 0.1502, ry = 0.2470, rz = 0.8421, s_ppm = -20.4894\<rparr>)
         \<or> (n = ''Pulkovo1942'' \<and> toWGS84 e = \<lparr>tx = 23.92, ty = -141.27, tz = -80.9,
                    rx = 0, ry = 0.35, rz = 0.82, s_ppm = -0.12\<rparr>)"
    by (simp add: DATUMS_list_def zero_params_def)
  moreover from assms have "(name, d) \<in> set DATUMS_list"
    unfolding DATUMS_def by (rule map_of_SomeD)
  ultimately show ?thesis by blast
qed

text \<open>
  Claim C1, as stated, fails for the OSGB36 parameters already at the origin: the first
  component comes back about 8 mm away, because negating the seven parameters inverts the
  transformation to first order only.
\<close>

theorem helmert_round_trip_osgb36_origin:
  "\<not> \<bar>xyz_x (inverseHelmertTransformation
             (helmertTransformation \<lparr>xyz_x = 0, xyz_y = 0, xyz_z = 0\<rparr>
                (toWGS84 (the (DATUMS ''OSGB36''))))
             (toWGS84 (the (DATUMS ''OSGB36'')))) - 0\<bar> \<le> 0.000001"
  using pi_bounds
  by (simp add: DATUMS_def DATUMS_list_def inverseHelmertTransformation_def
      helmertTransformation_def Let_def ARCSEC2RAD_def)

text \<open>
  Claim C1, amended. For every parameter set stored in the datum catalog and every
  Cartesian coordinate whose components are at most 7000 km in absolute value, applying
  the Helmert transformation and then the transformation with the seven parameters negated
  returns a point within 0.02 m of the input in each component; for every catalog entry
  other than OSGB36 and Pulkovo1942 (the two with a rotation or a scale) it returns a
  point within \<open>1 / 10 ^ 6\<close> m of the input in each component, as the claim says.
\<close>

theorem helmert_round_trip_catalog:
  fixes x y z :: real
  defines "r \<equiv> \<lambda>P. inverseHelmertTransformation
                 (helmertTransformation \<lparr>xyz_x = x, xyz_y = y, xyz_z = z\<rparr> P) P"
  assumes d: "DATUMS name = Some d"
    and v: "\<bar>x\<bar> \<le> 7000000" "\<bar>y\<bar> \<le> 7000000" "\<bar>z\<bar> \<le> 7000000"
  shows "\<bar>xyz_x (r (toWGS84 d)) - x\<bar> \<le> 0.02 \<and> \<bar>xyz_y (r (toWGS84 d)) - y\<bar> \<le> 0.02 \<and>
         \<bar>xyz_z (r (toWGS84 d)) - z\<bar> \<le> 0.02 \<and>
         (name \<noteq> ''OSGB36'' \<and> name \<noteq> ''Pulkovo1942'' \<longrightarrow>
            \<bar>xyz_x (r (toWGS84 d)) - x\<bar> \<le> 0.000001 \<and>
            \<bar>xyz_y (r (toWGS84 d)) - y\<bar> \<le> 0.000001 \<and>
            \<bar>xyz_z (r (toWGS84 d)) - z\<bar> \<le> 0.000001)"
proof -
  note u = ARCSEC2RAD_bounds
  from DATUMS_params_cases [OF d] show ?thesis
  proof (elim disjE conjE)
    assume "rx (toWGS84 d) = 0" "ry (toWGS84 d) = 0" "rz (toWGS84 d) = 0" "s_ppm (toWGS84 d) = 0"
    then have "r (toWGS84 d) = \<lparr>xyz_x = x, xyz_y = y, xyz_z = z\<rparr>"
      unfolding r_def by (rule helmert_round_trip_translation_only)
    then show ?thesis by simp
  next
    assume n: "name = ''OSGB36''"
      and P: "toWGS84 d = \<lparr>tx = 446.448, ty = -125.157, tz = 542.060,
                    rx = 0.1502, ry = 0.2470, rz = 0.8421, s_ppm = -20.4894\<rparr>"
    have "\<bar>xyz_x (r (toWGS84 d)) - x\<bar> \<le> 0.02 \<and> \<bar>xyz_y (r (toWGS84 d)) - y\<bar> \<le> 0.02 \<and>
         \<bar>xyz_z (r (toWGS84 d)) - z\<bar> \<le> 0.02"
      unfolding r_def
    proof (rule helmert_round_trip_within [where K = "0.0000204894" and T = "542.06"
          and R = "0.00000409" and D = 7000000])
      show "\<bar>rx (toWGS84 d) * ARCSEC2RAD\<bar> \<le> 0.00000409" using u by (simp add: P abs_mult)
      show "\<bar>ry (toWGS84 d) * ARCSEC2RAD\<bar> \<le> 0.00000409" using u by (simp add: P abs_mult)
      show "\<bar>rz (toWGS84 d) * ARCSEC2RAD\<bar> \<le> 0.00000409" using u by (simp add: P abs_mult)
    qed (use v in \<open>simp_all add: P\<close>)
    then show ?thesis using n by simp
  next
    assume n: "name = ''Pulkovo1942''"
      and P: "toWGS84 d = \<lparr>tx = 23.92, ty = -141.27, tz = -80.9,
                    rx = 0, ry = 0.35, rz = 0.82, s_ppm = -0.12\<rparr>"
    have "\<bar>xyz_x (r (toWGS84 d)) - x\<bar> \<le> 0.02 \<and> \<bar>xyz_y (r (toWGS84 d)) - y\<bar> \<le> 0.02 \<and>
         \<bar>xyz_z (r (toWGS84 d)) - z\<bar> \<le> 0.02"
      unfolding r_def
    proof (rule helmert_round_trip_within [where K = "0.00000012" and T = "141.27"
          and R = "0.000004" and D = 7000000])
      show "\<bar>rx (toWGS84 d) * ARCSEC2RAD\<bar> \<le> 0.000004" using u by (simp add: P abs_mult)
      show "\<bar>ry (toWGS84 d) * ARCSEC2RAD\<bar> \<le> 0.000004" using u by (simp add: P abs_mult)
      show "\<bar>rz (toWGS84 d) * ARCSEC2RAD\<bar> \<le> 0.000004" using u by (simp add: P abs_mult)
    qed (use v in \<open>simp_all add: P\<close>)
    then show ?thesis using n by simp
  qed
qed

theorem helmert_round_trip_catalog_witness:
  "(\<bar>xyz_x (inverseHelmertTransformation
       (helmertTransformation \<lparr>xyz_x = 3980000, xyz_y = - 10000, xyz_z = 4970000\<rparr>
          (toWGS84 (the (DATUMS ''OSGB36'')))) (toWGS84 (the (DATUMS ''OSGB36'')))) - 3980000\<bar>
      \<le> 0.02) \<and>
   (\<bar>xyz_x (inverseHelmertTransformation
       (helmertTransformation \<lparr>xyz_x = 3980000, xyz_y = - 10000, xyz_z = 4970000\<rparr>
          (toWGS84 (the (DATUMS ''ED50'')))) (toWGS84 (the (DATUMS ''ED50'')))) - 3980000\<bar>
      \<le> 0.000001)"
proof -
  have d1: "DATUMS ''OSGB36'' = Some (the (DATUMS ''OSGB36''))"
    by (simp add: DATUMS_def DATUMS_list_def)
  have d2: "DATUMS ''ED50'' = Some (the (DATUMS ''ED50''))"
    by (simp add: DATUMS_def DATUMS_list_def)
  have v: "\<bar>3980000 :: real\<bar> \<le> 7000000" "\<bar>- 10000 :: real\<bar> \<le> 7000000"
    "\<bar>4970000 :: real\<bar> \<le> 7000000"
    by simp_all
  from helmert_round_trip_catalog [OF d1 v] helmert_round_trip_catalog [OF d2 v]
  show ?thesis by simp
qed

section \<open>One degree along the equator\<close>

lemma vincenty_loop_equator_east:
  assumes "0 < lam" and "lam < pi"
  shows "vincenty_loop L f 0 1 0 1 lam n =
          (if \<bar>L + f * lam - lam\<bar> > 0.000000000001 then
             (if n - 1 > 0 then vincenty_loop L f 0 1 0 1 (L + f * lam) (n - 1)
              else Exit \<lparr>v_sinSigma = sin lam, v_cosSigma = cos lam, v_sigma = lam,
                          v_sinAlpha = 1, v_cos2Alpha = 0, v_cos2SigmaM = 0,
                          v_lambda = L + f * lam\<rparr> (n - 1))
           else Exit \<lparr>v_sinSigma = sin lam, v_cosSigma = cos lam, v_sigma = lam,
                       v_sinAlpha = 1, v_cos2Alpha = 0, v_cos2SigmaM = 0,
                       v_lambda = L + f * lam\<rparr> n)"
  by (subst vincenty_loop.simps)
    (simp only: vincenty_body_equator_east [OF assms] option.case vincenty_vars.simps)

lemma vincenty_loop_one_degree:
  fixes L f :: real
  defines "L \<equiv> pi / 180" and "f \<equiv> 1 / 298.257223563"
  defines "l4 \<equiv> L + f * (L + f * (L + f * (L + f * L)))"
  shows "vincenty_loop L f 0 1 0 1 L 100 =
           Exit \<lparr>v_sinSigma = sin l4, v_cosSigma = cos l4, v_sigma = l4,
                  v_sinAlpha = 1, v_cos2Alpha = 0, v_cos2SigmaM = 0,
                  v_lambda = L + f * l4\<rparr> 96"
    and "0 < L + f * l4" and "L + f * l4 < pi"
proof -
  have pi3: "3 < pi" "pi < 4" using pi_bounds by simp_all
  define l1 where "l1 = L + f * L"
  define l2 where "l2 = L + f * l1"
  define l3 where "l3 = L + f * l2"
  have l4: "l4 = L + f * l3" by (simp add: l4_def l3_def l2_def l1_def)
  have r0: "0 < L" "L < pi" using pi3 by (simp_all add: L_def)
  have r1: "0 < l1" "l1 < pi" using pi3 by (simp_all add: l1_def L_def f_def field_simps)
  have r2: "0 < l2" "l2 < pi" using pi3 by (simp_all add: l2_def l1_def L_def f_def field_simps)
  have r3: "0 < l3" "l3 < pi"
    using pi3 by (simp_all add: l3_def l2_def l1_def L_def f_def field_simps)
  have r4: "0 < l4" "l4 < pi"
    using pi3 by (simp_all add: l4 l3_def l2_def l1_def L_def f_def field_simps)
  show "0 < L + f * l4" "L + f * l4 < pi"
    using pi3 by (simp_all add: l4 l3_def l2_def l1_def L_def f_def field_simps)
  have d0: "\<bar>L + f * L - L\<bar> > 0.000000000001"
    using pi3 by (simp add: L_def f_def field_simps)
  have d1: "\<bar>L + f * l1 - l1\<bar> > 0.000000000001"
    using pi3 by (simp add: l1_def L_def f_def field_simps)
  have d2: "\<bar>L + f * l2 - l2\<bar> > 0.000000000001"
    using pi3 by (simp add: l2_def l1_def L_def f_def field_simps)
  have d3: "\<bar>L + f * l3 - l3\<bar> > 0.000000000001"
    using pi3 by (simp add: l3_def l2_def l1_def L_def f_def field_simps)
  have d4: "\<not> \<bar>L + f * l4 - l4\<bar> > 0.000000000001"
    using pi3 by (simp add: l4 l3_def l2_def l1_def L_def f_def field_simps)
  have "vincenty_loop L f 0 1 0 1 L 100 = vincenty_loop L f 0 1 0 1 l1 99"
    by (subst vincenty_loop_equator_east [OF r0]) (simp only: d0 if_True, simp add: l1_def)
  also have "\<dots> = vincenty_loop L f 0 1 0 1 l2 98"
    by (subst vincenty_loop_equator_east [OF r1]) (simp only: d1 if_True, simp add: l2_def)
  also have "\<dots> = vincenty_loop L f 0 1 0 1 l3 97"
    by (subst vincenty_loop_equator_east [OF r2]) (simp only: d2 if_True, simp add: l3_def)
  also have "\<dots> = vincenty_loop L f 0 1 0 1 l4 96"
    by (subst vincenty_loop_equator_east [OF r3]) (simp only: d3 if_True, simp add: l4)
  also have "\<dots> = Exit \<lparr>v_sinSigma = sin l4, v_cosSigma = cos l4, v_sigma = l4,
                  v_sinAlpha = 1, v_cos2Alpha = 0, v_cos2SigmaM = 0,
                  v_lambda = L + f * l4\<rparr> 96"
    by (subst vincenty_loop_equator_east [OF r4]) (simp only: d4 if_False)
  finally show "vincenty_loop L f 0 1 0 1 L 100 =
           Exit \<lparr>v_sinSigma = sin l4, v_cosSigma = cos l4, v_sigma = l4,
                  v_sinAlpha = 1, v_cos2Alpha = 0, v_cos2SigmaM = 0,
                  v_lambda = L + f * l4\<rparr> 96" .
qed


lemma toDegrees_half_pi: "toDegrees (pi / 2) = 90"
  by (simp add: toDegrees_def RAD2DEG_def)

lemma vincentyDistance_exit:
  assumes "vincenty_loop (toRadians (lon2 - lon1)) (ell_f E) (sin U1) (cos U1) (sin U2) (cos U2)
             (toRadians (lon2 - lon1)) 100 = Exit st n"
    and "n \<noteq> 0"
    and "U1 = arctan ((1 - ell_f E) * tan (toRadians lat1))"
    and "U2 = arctan ((1 - ell_f E) * tan (toRadians lat2))"
  shows "vincentyDistance lat1 lon1 lat2 lon2 E =
     Some \<lparr>distance =
             (let a = ell_a E;
                  b = a * (1 - ell_f E);
                  uSq = v_cos2Alpha st * (a * a - b * b) / (b * b);
                  A = 1 + uSq / 16384 * (4096 + uSq * (- 768 + uSq * (320 - 175 * uSq)));
                  B = uSq / 1024 * (256 + uSq * (- 128 + uSq * (74 - 47 * uSq)));
                  deltaSigma = B * v_sinSigma st *
                     (v_cos2SigmaM st + B / 4 *
                        (v_cosSigma st * (- 1 + 2 * v_cos2SigmaM st * v_cos2SigmaM st) -
                         B / 6 * v_cos2SigmaM st * (- 3 + 4 * v_sinSigma st * v_sinSigma st) *
                           (- 3 + 4 * v_cos2SigmaM st * v_cos2SigmaM st)))
              in b * A * (v_sigma st - deltaSigma)),
           azimuth12 = toDegrees (atan2 (cos U2 * sin (v_lambda st))
                          (cos U1 * sin U2 - sin U1 * cos U2 * cos (v_lambda st))),
           azimuth21 = toDegrees (atan2 (cos U1 * sin (v_lambda st))
                          (- sin U1 * cos U2 + cos U1 * sin U2 * cos (v_lambda st)))\<rparr>"
  using assms(1,2) unfolding assms(3,4)
  by (simp add: vincentyDistance_def getEllipsoidParams_def Let_def)

text \<open>
  Claim C3. For one degree of longitude along the equator on WGS84 the loop converges on
  its fifth pass and \<open>vincentyDistance\<close> returns a distance within 1 mm of 111319.49 m and a
  forward azimuth of 90 degrees. The value it returns as \<^verbatim>\<open>azimuth21\<close> is 90 degrees as well,
  not 270: the formula under the comment \<^verbatim>\<open>Reverse azimuth\<close> is the direction in which the
  geodesic arrives at the second point.
\<close>

theorem vincentyDistance_one_degree_equator:
  "\<exists>r. vincentyDistance 0 0 0 1 WGS84 = Some r \<and>
       \<bar>distance r - 111319.49\<bar> < 0.001 \<and> azimuth12 r = 90 \<and> azimuth21 r = 90"
proof -
  define L :: real where "L = pi / 180"
  define f :: real where "f = 1 / 298.257223563"
  define l4 where "l4 = L + f * (L + f * (L + f * (L + f * L)))"
  define l5 where "l5 = L + f * l4"
  define st where "st = \<lparr>v_sinSigma = sin l4, v_cosSigma = cos l4, v_sigma = l4,
         v_sinAlpha = 1, v_cos2Alpha = 0, v_cos2SigmaM = 0, v_lambda = l5\<rparr>"
  note loop = vincenty_loop_one_degree [folded L_def f_def, folded l4_def, folded l5_def]
  have s5: "0 < sin l5" using loop(2,3) by (rule sin_gt_zero)
  have az: "atan2 (sin l5) 0 = pi / 2" using s5 by (rule atan2_zero_pos)
  have fW: "ell_f WGS84 = f" and aW: "ell_a WGS84 = 6378137" by (simp_all add: WGS84_def f_def)
  have LW: "toRadians 1 = L" by (simp add: toRadians_def DEG2RAD_def L_def)
  have U: "0 = arctan ((1 - ell_f WGS84) * tan (toRadians 0))" by (simp add: toRadians_def)
  have loop': "vincenty_loop (toRadians (1 - 0)) (ell_f WGS84) (sin 0) (cos 0) (sin 0) (cos 0)
             (toRadians (1 - 0)) 100 = Exit st 96"
    using loop(1) by (simp add: fW LW st_def)
  have eq: "vincentyDistance 0 0 0 1 WGS84 =
      Some \<lparr>distance = 6378137 * (1 - f) * l4, azimuth12 = 90, azimuth21 = 90\<rparr>"
    by (subst vincentyDistance_exit [OF loop' _ U U])
      (simp_all add: st_def fW aW az toDegrees_half_pi)
  have "111319.4907 < 6378137 * (1 - f) * l4" "6378137 * (1 - f) * l4 < 111319.4909"
    using pi_bounds by (simp_all add: l4_def L_def f_def field_simps)
  then have "\<bar>6378137 * (1 - f) * l4 - 111319.49\<bar> < 0.001" by (simp add: abs_less_iff)
  with eq show ?thesis by simp
qed

section \<open>Enclosures of sine and cosine\<close>

text \<open>Maclaurin polynomials with explicit remainder, in Horner form, and the interval
  steps used to evaluate them at a point known only up to the enclosure of \<open>pi\<close>.\<close>

lemma sin_coeff_sum:
  fixes x :: real
  shows "(\<Sum>m<13. sin_coeff m * x ^ m)
           = x - x^3 / 6 + x^5 / 120 - x^7 / 5040 + x^9 / 362880 - x^11 / 39916800"
  by (simp add: eval_nat_numeral lessThan_Suc sin_coeff_Suc cos_coeff_Suc)

lemma cos_coeff_sum:
  fixes x :: real
  shows "(\<Sum>m<14. cos_coeff m * x ^ m)
           = 1 - x^2 / 2 + x^4 / 24 - x^6 / 720 + x^8 / 40320 - x^10 / 3628800
              + x^12 / 479001600"
  by (simp add: eval_nat_numeral lessThan_Suc sin_coeff_Suc cos_coeff_Suc)

lemma fact_13: "fact 13 = (6227020800 :: real)" and fact_14: "fact 14 = (87178291200 :: real)"
  by (simp_all add: eval_nat_numeral)

lemma sin_taylor:
  fixes x :: real
  shows "\<bar>sin x - (x - x^3 / 6 + x^5 / 120 - x^7 / 5040 + x^9 / 362880 - x^11 / 39916800)\<bar>
           \<le> \<bar>x\<bar>^13 / 6227020800"
  using Maclaurin_sin_bound [of x 13]
  by (simp only: sin_coeff_sum fact_13 inverse_eq_divide)

lemma cos_taylor:
  fixes x :: real
  shows "\<bar>cos x - (1 - x^2 / 2 + x^4 / 24 - x^6 / 720 + x^8 / 40320 - x^10 / 3628800
              + x^12 / 479001600)\<bar> \<le> \<bar>x\<bar>^14 / 87178291200"
proof -
  obtain t where "cos x = (\<Sum>m<14. cos_coeff m * x ^ m)
      + cos (t + 1 / 2 * real (14::nat) * pi) / fact 14 * x ^ 14"
    using Maclaurin_cos_expansion [of x 14] by blast
  then have e: "cos x - (1 - x^2 / 2 + x^4 / 24 - x^6 / 720 + x^8 / 40320 - x^10 / 3628800
              + x^12 / 479001600) = cos (t + 1 / 2 * real (14::nat) * pi) * (x ^ 14 / 87178291200)"
    by (simp only: cos_coeff_sum fact_14)
  have b: "\<bar>cos (t + 1 / 2 * real (14::nat) * pi) * (x ^ 14 / 87178291200)\<bar>
      \<le> 1 * \<bar>x ^ 14 / 87178291200\<bar>"
    unfolding abs_mult by (intro mult_right_mono abs_cos_le_one abs_ge_zero)
  have "\<bar>cos x - (1 - x^2 / 2 + x^4 / 24 - x^6 / 720 + x^8 / 40320 - x^10 / 3628800
              + x^12 / 479001600)\<bar> \<le> 1 * \<bar>x ^ 14 / 87178291200\<bar>"
    unfolding e by (rule b)
  also have "1 * \<bar>x ^ 14 / 87178291200\<bar> = \<bar>x\<bar> ^ 14 / 87178291200"
    by (simp add: power_abs)
  finally show ?thesis .
qed

lemma sin_horner:
  fixes x :: real
  shows "x - x^3 / 6 + x^5 / 120 - x^7 / 5040 + x^9 / 362880 - x^11 / 39916800
         = x * (1 - x * x * (1 - x * x * (1 - x * x * (1 - x * x * (1 - x * x * 1 / 110) / 72) / 42) / 20) / 6)"
  by (simp add: field_simps power_eq_if)

lemma cos_horner:
  fixes x :: real
  shows "1 - x^2 / 2 + x^4 / 24 - x^6 / 720 + x^8 / 40320 - x^10 / 3628800 + x^12 / 479001600
         = 1 - x * x * (1 - x * x * (1 - x * x * (1 - x * x * (1 - x * x * (1 - x * x * 1 / 132) / 90) / 56) / 30) / 12) / 2"
  by (simp add: field_simps power_eq_if)

lemma sin_horner_bound:
  fixes x :: real
  assumes "0 \<le> x" and "x \<le> 3 / 4"
  shows "\<bar>sin x - x * (1 - x * x * (1 - x * x * (1 - x * x * (1 - x * x * (1 - x * x * 1 / 110) / 72) / 42) / 20) / 6)\<bar>
           \<le> 4 / 10 ^ 12"
proof -
  have "\<bar>x\<bar> ^ 13 \<le> (3 / 4) ^ 13" using assms by (intro power_mono) simp_all
  then have "\<bar>x\<bar> ^ 13 / 6227020800 \<le> (3 / 4) ^ 13 / 6227020800"
    by (simp add: divide_right_mono)
  also have "\<dots> \<le> (4 / 10 ^ 12 :: real)" by (simp add: power_divide)
  finally show ?thesis using sin_taylor [of x] unfolding sin_horner by linarith
qed

lemma cos_horner_bound:
  fixes x :: real
  assumes "0 \<le> x" and "x \<le> 3 / 4"
  shows "\<bar>cos x - (1 - x * x * (1 - x * x * (1 - x * x * (1 - x * x * (1 - x * x * (1 - x * x * 1 / 132) / 90) / 56) / 30) / 12) / 2)\<bar>
           \<le> 3 / 10 ^ 13"
proof -
  have "\<bar>x\<bar> ^ 14 \<le> (3 / 4) ^ 14" using assms by (intro power_mono) simp_all
  then have "\<bar>x\<bar> ^ 14 / 87178291200 \<le> (3 / 4) ^ 14 / 87178291200"
    by (simp add: divide_right_mono)
  also have "\<dots> \<le> (3 / 10 ^ 13 :: real)" by (simp add: power_divide)
  finally show ?thesis using cos_taylor [of x] unfolding cos_horner by linarith
qed

lemma horner_step:
  fixes t h c :: real
  assumes "ta \<le> t \<and> t \<le> tb" and "ha \<le> h \<and> h \<le> hb"
    and "0 \<le> ta" and "0 \<le> ha" and "0 < c"
    and "lo \<le> 1 - tb * hb / c" and "1 - ta * ha / c \<le> hi"
  shows "lo \<le> 1 - t * h / c \<and> 1 - t * h / c \<le> hi"
proof -
  have "ta * ha \<le> t * h" using assms by (intro mult_mono) linarith+
  moreover have "t * h \<le> tb * hb" using assms by (intro mult_mono) linarith+
  ultimately have "ta * ha / c \<le> t * h / c" "t * h / c \<le> tb * hb / c"
    using assms(5) by (simp_all add: divide_right_mono)
  then show ?thesis using assms(6,7) by linarith
qed

lemma interval_mult:
  fixes x y :: real
  assumes "a \<le> x \<and> x \<le> b" and "c \<le> y \<and> y \<le> d"
    and "0 \<le> a" and "0 \<le> c" and "lo \<le> a * c" and "b * d \<le> hi"
  shows "lo \<le> x * y \<and> x * y \<le> hi"
proof -
  have "a * c \<le> x * y" using assms by (intro mult_mono) linarith+
  moreover have "x * y \<le> b * d" using assms by (intro mult_mono) linarith+
  ultimately show ?thesis using assms(5,6) by linarith
qed

lemma interval_within:
  fixes v :: real
  assumes "lo \<le> v \<and> v \<le> hi" and "t - e < lo" and "hi < t + e"
  shows "\<bar>v - t\<bar> < e"
  using assms by linarith


section \<open>Geocentric coordinates of a point near Istanbul\<close>

lemma sin_cos_41_0082:
  "0.6561670340351 \<le> sin (toRadians 41.0082) \<and> sin (toRadians 41.0082) \<le> 0.6561670340433"
  "0.7546156792944 \<le> cos (toRadians 41.0082) \<and> cos (toRadians 41.0082) \<le> 0.7546156792953"
proof -
  define x where "x = toRadians 41.0082"
  define t where "t = x * x"
  have x: "0.7157281103163 \<le> x \<and> x \<le> 0.7157281103164"
    using pi_bounds by (simp add: x_def toRadians_def DEG2RAD_def)
  have x0: "0 \<le> x" "x \<le> 3 / 4" using x by simp_all
  have one: "1 \<le> (1::real) \<and> (1::real) \<le> 1" by simp
  have t: "0.5122667278969 \<le> t \<and> t \<le> 0.5122667278971"
    unfolding t_def by (rule interval_mult [OF x x]) simp_all
  define s0 where "s0 = 1 - t * 1 / 110"
  have s0: "0.9953430297463 \<le> s0 \<and> s0 \<le> 0.9953430297464"
    unfolding s0_def by (rule horner_step [OF t one]) simp_all
  define s1 where "s1 = 1 - t * s0 / 72"
  have s1: "0.9929183178196 \<le> s1 \<and> s1 \<le> 0.9929183178197"
    unfolding s1_def by (rule horner_step [OF t s0]) simp_all
  define s2 where "s2 = 1 - t * s1 / 42"
  have s2: "0.9878895471967 \<le> s2 \<and> s2 \<le> 0.9878895471968"
    unfolding s2_def by (rule horner_step [OF t s1]) simp_all
  define s3 where "s3 = 1 - t * s2 / 20"
  have s3: "0.9746968527066 \<le> s3 \<and> s3 \<le> 0.9746968527067"
    unfolding s3_def by (rule horner_step [OF t s2]) simp_all
  define s4 where "s4 = 1 - t * s3 / 6"
  have s4: "0.916782538762 \<le> s4 \<and> s4 \<le> 0.9167825387621"
    unfolding s4_def by (rule horner_step [OF t s3]) simp_all
  define c0 where "c0 = 1 - t * 1 / 132"
  have c0: "0.9961191914553 \<le> c0 \<and> c0 \<le> 0.9961191914554"
    unfolding c0_def by (rule horner_step [OF t one]) simp_all
  define c1 where "c1 = 1 - t * c0 / 90"
  have c1: "0.9943302364577 \<le> c1 \<and> c1 \<le> 0.9943302364578"
    unfolding c1_def by (rule horner_step [OF t c0]) simp_all
  define c2 where "c2 = 1 - t * c1 / 56"
  have c2: "0.9909042447021 \<le> c2 \<and> c2 \<le> 0.9909042447022"
    unfolding c2_def by (rule horner_step [OF t c1]) simp_all
  define c3 where "c3 = 1 - t * c2 / 30"
  have c3: "0.9830797574969 \<le> c3 \<and> c3 \<le> 0.983079757497"
    unfolding c3_def by (rule horner_step [OF t c2]) simp_all
  define c4 where "c4 = 1 - t * c3 / 12"
  have c4: "0.958033412447 \<le> c4 \<and> c4 \<le> 0.9580334124472"
    unfolding c4_def by (rule horner_step [OF t c3]) simp_all
  define c5 where "c5 = 1 - t * c4 / 2"
  have c5: "0.7546156792947 \<le> c5 \<and> c5 \<le> 0.754615679295"
    unfolding c5_def by (rule horner_step [OF t c4]) simp_all
  have es: "\<bar>sin x - x * s4\<bar> \<le> 4 / 10 ^ 12"
    unfolding s4_def s3_def s2_def s1_def s0_def t_def by (rule sin_horner_bound [OF x0])
  have ec: "\<bar>cos x - c5\<bar> \<le> 3 / 10 ^ 13"
    unfolding c5_def c4_def c3_def c2_def c1_def c0_def t_def by (rule cos_horner_bound [OF x0])
  have xs: "0.6561670340391 \<le> x * s4 \<and> x * s4 \<le> 0.6561670340393"
    by (rule interval_mult [OF x s4]) simp_all
  show "0.6561670340351 \<le> sin (toRadians 41.0082) \<and> sin (toRadians 41.0082) \<le> 0.6561670340433"
    using es xs unfolding x_def [symmetric] abs_le_iff by simp
  show "0.7546156792944 \<le> cos (toRadians 41.0082) \<and> cos (toRadians 41.0082) \<le> 0.7546156792953"
    using ec c5 unfolding x_def [symmetric] abs_le_iff by simp
qed

lemma sin_cos_28_9784:
  "0.4844798619373 \<le> sin (toRadians 28.9784) \<and> sin (toRadians 28.9784) \<le> 0.4844798619456"
  "0.8748024139042 \<le> cos (toRadians 28.9784) \<and> cos (toRadians 28.9784) \<le> 0.874802413905"
proof -
  define x where "x = toRadians 28.9784"
  define t where "t = x * x"
  have x: "0.5057684919599 \<le> x \<and> x \<le> 0.50576849196"
    using pi_bounds by (simp add: x_def toRadians_def DEG2RAD_def)
  have x0: "0 \<le> x" "x \<le> 3 / 4" using x by simp_all
  have one: "1 \<le> (1::real) \<and> (1::real) \<le> 1" by simp
  have t: "0.2558017674593 \<le> t \<and> t \<le> 0.2558017674595"
    unfolding t_def by (rule interval_mult [OF x x]) simp_all
  define s0 where "s0 = 1 - t * 1 / 110"
  have s0: "0.9976745293867 \<le> s0 \<and> s0 \<le> 0.9976745293868"
    unfolding s0_def by (rule horner_step [OF t one]) simp_all
  define s1 where "s1 = 1 - t * s0 / 72"
  have s1: "0.9964554596115 \<le> s1 \<and> s1 \<le> 0.9964554596116"
    unfolding s1_def by (rule horner_step [OF t s0]) simp_all
  define s2 where "s2 = 1 - t * s1 / 42"
  have s2: "0.9939310698151 \<le> s2 \<and> s2 \<le> 0.9939310698152"
    unfolding s2_def by (rule horner_step [OF t s1]) simp_all
  define s3 where "s3 = 1 - t * s2 / 20"
  have s3: "0.9872875337804 \<le> s3 \<and> s3 \<le> 0.9872875337805"
    unfolding s3_def by (rule horner_step [OF t s2]) simp_all
  define s4 where "s4 = 1 - t * s3 / 6"
  have s4: "0.9579083506447 \<le> s4 \<and> s4 \<le> 0.9579083506448"
    unfolding s4_def by (rule horner_step [OF t s3]) simp_all
  define c0 where "c0 = 1 - t * 1 / 132"
  have c0: "0.9980621078222 \<le> c0 \<and> c0 \<le> 0.9980621078223"
    unfolding c0_def by (rule horner_step [OF t one]) simp_all
  define c1 where "c1 = 1 - t * c0 / 90"
  have c1: "0.9971632660976 \<le> c1 \<and> c1 \<le> 0.9971632660977"
    unfolding c1_def by (rule horner_step [OF t c0]) simp_all
  define c2 where "c2 = 1 - t * c1 / 56"
  have c2: "0.9954450691801 \<le> c2 \<and> c2 \<le> 0.9954450691802"
    unfolding c2_def by (rule horner_step [OF t c1]) simp_all
  define c3 where "c3 = 1 - t * c2 / 30"
  have c3: "0.9915121130631 \<le> c3 \<and> c3 \<le> 0.9915121130632"
    unfolding c3_def by (rule horner_step [OF t c2]) simp_all
  define c4 where "c4 = 1 - t * c3 / 12"
  have c4: "0.9788641207517 \<le> c4 \<and> c4 \<le> 0.9788641207518"
    unfolding c4_def by (rule horner_step [OF t c3]) simp_all
  define c5 where "c5 = 1 - t * c4 / 2"
  have c5: "0.8748024139045 \<le> c5 \<and> c5 \<le> 0.8748024139047"
    unfolding c5_def by (rule horner_step [OF t c4]) simp_all
  have es: "\<bar>sin x - x * s4\<bar> \<le> 4 / 10 ^ 12"
    unfolding s4_def s3_def s2_def s1_def s0_def t_def by (rule sin_horner_bound [OF x0])
  have ec: "\<bar>cos x - c5\<bar> \<le> 3 / 10 ^ 13"
    unfolding c5_def c4_def c3_def c2_def c1_def c0_def t_def by (rule cos_horner_bound [OF x0])
  have xs: "0.4844798619413 \<le> x * s4 \<and> x * s4 \<le> 0.4844798619416"
    by (rule interval_mult [OF x s4]) simp_all
  show "0.4844798619373 \<le> sin (toRadians 28.9784) \<and> sin (toRadians 28.9784) \<le> 0.4844798619456"
    using es xs unfolding x_def [symmetric] abs_le_iff by simp
  show "0.8748024139042 \<le> cos (toRadians 28.9784) \<and> cos (toRadians 28.9784) \<le> 0.874802413905"
    using ec c5 unfolding x_def [symmetric] abs_le_iff by simp
qed


lemma geographicToGeocentric_istanbul_bounds:
  "4216541.97596 \<le> xyz_x (geographicToGeocentric 41.0082 28.9784 0 WGS84) \<and>
   xyz_x (geographicToGeocentric 41.0082 28.9784 0 WGS84) \<le> 4216541.975972"
  "2335189.800459 \<le> xyz_y (geographicToGeocentric 41.0082 28.9784 0 WGS84) \<and>
   xyz_y (geographicToGeocentric 41.0082 28.9784 0 WGS84) \<le> 2335189.800504"
  "4163110.428657 \<le> xyz_z (geographicToGeocentric 41.0082 28.9784 0 WGS84) \<and>
   xyz_z (geographicToGeocentric 41.0082 28.9784 0 WGS84) \<le> 4163110.428712"
proof -
  define e2 :: real where "e2 = 2 * (1 / 298.257223563) - (1 / 298.257223563) * (1 / 298.257223563)"
  define s where "s = sin (toRadians 41.0082)"
  define c where "c = cos (toRadians 41.0082)"
  define sL where "sL = sin (toRadians 28.9784)"
  define cL where "cL = cos (toRadians 28.9784)"
  define W where "W = sqrt (1 - e2 * (s * s))"
  define N where "N = 6378137 / W"
  have eq: "geographicToGeocentric 41.0082 28.9784 0 WGS84
      = \<lparr>xyz_x = N * c * cL, xyz_y = N * c * sL, xyz_z = N * (1 - e2) * s\<rparr>"
    by (simp add: geographicToGeocentric_def getEllipsoidParams_def WGS84_def Let_def
        N_def W_def s_def c_def sL_def cL_def e2_def)
  note s = sin_cos_41_0082(1) [folded s_def]
  note c = sin_cos_41_0082(2) [folded c_def]
  note sL = sin_cos_28_9784(1) [folded sL_def]
  note cL = sin_cos_28_9784(2) [folded cL_def]
  have e2: "0.006694379990141 \<le> e2 \<and> e2 \<le> 0.006694379990142" by (simp add: e2_def)
  have q: "0.993305620009858 \<le> 1 - e2 \<and> 1 - e2 \<le> 0.993305620009859" by (simp add: e2_def)
  have ss: "0.4305551765544 \<le> s * s \<and> s * s \<le> 0.4305551765652"
    by (rule interval_mult [OF s s]) simp_all
  have es: "0.0028822999585 \<le> e2 * (s * s) \<and> e2 * (s * s) \<le> 0.0028822999587"
    by (rule interval_mult [OF e2 ss]) simp_all
  have W: "0.9985578100647 \<le> W \<and> W \<le> 0.9985578100649"
  proof
    have "(0.9985578100647)\<^sup>2 \<le> 1 - e2 * (s * s)" using es by (simp add: power2_eq_square)
    then show "0.9985578100647 \<le> W" unfolding W_def by (rule real_le_rsqrt)
    have "1 - e2 * (s * s) \<le> (0.9985578100649)\<^sup>2" using es by (simp add: power2_eq_square)
    then show "W \<le> 0.9985578100649" unfolding W_def by (intro real_le_lsqrt) simp_all
  qed
  have N: "6387348.770108 \<le> N \<and> N \<le> 6387348.77011"
    using W by (simp add: N_def field_simps)
  have Nc: "4819993.531045 \<le> N * c \<and> N * c \<le> 4819993.531053"
    by (rule interval_mult [OF N c]) simp_all
  have X: "4216541.97596 \<le> N * c * cL \<and> N * c * cL \<le> 4216541.975972"
    by (rule interval_mult [OF Nc cL]) simp_all
  have Y: "2335189.800459 \<le> N * c * sL \<and> N * c * sL \<le> 2335189.800504"
    by (rule interval_mult [OF Nc sL]) simp_all
  have Nq: "6344589.430311 \<le> N * (1 - e2) \<and> N * (1 - e2) \<le> 6344589.430314"
    by (rule interval_mult [OF N q]) simp_all
  have Z: "4163110.428657 \<le> N * (1 - e2) * s \<and> N * (1 - e2) * s \<le> 4163110.428712"
    by (rule interval_mult [OF Nq s]) simp_all
  show "4216541.97596 \<le> xyz_x (geographicToGeocentric 41.0082 28.9784 0 WGS84) \<and>
   xyz_x (geographicToGeocentric 41.0082 28.9784 0 WGS84) \<le> 4216541.975972"
    unfolding eq xyz.select_convs by (rule X)
  show "2335189.800459 \<le> xyz_y (geographicToGeocentric 41.0082 28.9784 0 WGS84) \<and>
   xyz_y (geographicToGeocentric 41.0082 28.9784 0 WGS84) \<le> 2335189.800504"
    unfolding eq xyz.select_convs by (rule Y)
  show "4163110.428657 \<le> xyz_z (geographicToGeocentric 41.0082 28.9784 0 WGS84) \<and>
   xyz_z (geographicToGeocentric 41.0082 28.9784 0 WGS84) \<le> 4163110.428712"
    unfolding eq xyz.select_convs by (rule Z)
qed

text \<open>
  Claim C4, as stated, fails: the closed form evaluated at latitude 41.0082, longitude
  28.9784, height 0 on WGS84 gives values that differ from the stated ones by about
  75 km in \<open>X\<close>, 57 km in \<open>Y\<close> and 6 km in \<open>Z\<close>.
\<close>

theorem geographicToGeocentric_istanbul_not_as_stated:
  "74936 < xyz_x (geographicToGeocentric 41.0082 28.9784 0 WGS84) - 4141605 \<and>
   57188 < xyz_y (geographicToGeocentric 41.0082 28.9784 0 WGS84) - 2278001 \<and>
   5989 < 4169100 - xyz_z (geographicToGeocentric 41.0082 28.9784 0 WGS84)"
  using geographicToGeocentric_istanbul_bounds by simp

text \<open>
  Claim C4, amended. The conversion of latitude 41.0082, longitude 28.9784, height 0 on
  WGS84 returns \<open>X\<close> within 1 mm of 4216541.976 m, \<open>Y\<close> within 1 mm of 2335189.800 m and \<open>Z\<close>
  within 1 mm of 4163110.429 m; \<open>geographicToGeocentric\<close> is the closed form
  \<open>X = (N + h) cos \<phi> cos \<lambda>\<close>, \<open>Y = (N + h) cos \<phi> sin \<lambda>\<close>, \<open>Z = (N (1 - e\<^sup>2) + h) sin \<phi>\<close>.
\<close>

theorem geographicToGeocentric_istanbul:
  "\<bar>xyz_x (geographicToGeocentric 41.0082 28.9784 0 WGS84) - 4216541.976\<bar> < 0.001 \<and>
   \<bar>xyz_y (geographicToGeocentric 41.0082 28.9784 0 WGS84) - 2335189.800\<bar> < 0.001 \<and>
   \<bar>xyz_z (geographicToGeocentric 41.0082 28.9784 0 WGS84) - 4163110.429\<bar> < 0.001"
proof (intro conjI)
  show "\<bar>xyz_x (geographicToGeocentric 41.0082 28.9784 0 WGS84) - 4216541.976\<bar> < 0.001"
    by (rule interval_within [OF geographicToGeocentric_istanbul_bounds(1)]) simp_all
  show "\<bar>xyz_y (geographicToGeocentric 41.0082 28.9784 0 WGS84) - 2335189.800\<bar> < 0.001"
    by (rule interval_within [OF geographicToGeocentric_istanbul_bounds(2)]) simp_all
  show "\<bar>xyz_z (geographicToGeocentric 41.0082 28.9784 0 WGS84) - 4163110.429\<bar> < 0.001"
    by (rule interval_within [OF geographicToGeocentric_istanbul_bounds(3)]) simp_all
qed

section \<open>The latitude refinement loop\<close>

text \<open>The arctangent does not increase distances, and one pass of the loop of
  \<^verbatim>\<open>geocentricToGeographic\<close> in terms of \<open>phi_step\<close>: when \<^verbatim>\<open>newPhi\<close> is within the tolerance
  of \<open>phi\<close> the loop leaves with \<open>phi\<close>, not with \<^verbatim>\<open>newPhi\<close>.\<close>

lemma arctan_lipschitz: "\<bar>arctan u - arctan v\<bar> \<le> \<bar>u - v\<bar>"
proof -
  have pos: "arctan a - arctan b \<le> a - b" if "b \<le> a" for a b :: real
  proof (cases "b = a")
    case True
    then show ?thesis by simp
  next
    case False
    then have lt: "b < a" using that by simp
    obtain z where eq: "arctan a - arctan b = (a - b) * inverse (1 + z\<^sup>2)"
      using MVT2 [OF lt, of arctan "\<lambda>x. inverse (1 + x\<^sup>2)"] DERIV_arctan by blast
    have "inverse (1 + z\<^sup>2) \<le> 1" by (simp add: inverse_le_1_iff)
    then have "(a - b) * inverse (1 + z\<^sup>2) \<le> (a - b) * 1"
      using lt by (intro mult_left_mono) simp_all
    then show ?thesis by (simp add: eq)
  qed
  show ?thesis
  proof (cases "v \<le> u")
    case True
    then have "arctan v \<le> arctan u" by (simp add: arctan_monotone')
    then show ?thesis using pos [OF True] True by simp
  next
    case False
    then have le: "u \<le> v" by simp
    then have "arctan u \<le> arctan v" by (simp add: arctan_monotone')
    then show ?thesis using pos [OF le] le by simp
  qed
qed

lemma refine_phi_Suc:
  "refine_phi a e2 p z (Suc n) psi =
     (if \<bar>phi_step a e2 p z psi - psi\<bar> < 0.000000000001 then psi
      else refine_phi a e2 p z n (phi_step a e2 p z psi))"
  by (simp add: phi_step_def corr_def Let_def)

text \<open>The two conversions with the derived ellipsoid parameters written out.\<close>

lemma geographicToGeocentric_eq:
  "geographicToGeocentric lat lon h E =
     (let e2 = 2 * ell_f E - ell_f E * ell_f E;
          phi = toRadians lat;
          lam = toRadians lon;
          N = ell_a E / W_of e2 phi
      in \<lparr>xyz_x = (N + h) * cos phi * cos lam,
          xyz_y = (N + h) * cos phi * sin lam,
          xyz_z = (N * (1 - e2) + h) * sin phi\<rparr>)"
  by (simp add: geographicToGeocentric_def getEllipsoidParams_def Let_def W_of_def)

lemma geocentricToGeographic_eq:
  "geocentricToGeographic x y z E =
     (let a = ell_a E;
          e2 = 2 * ell_f E - ell_f E * ell_f E;
          b = a * (1 - ell_f E);
          p = sqrt (x * x + y * y);
          theta = atan2 (z * a) (p * b);
          phi0 = atan2 (z + e2 / (1 - e2) * b * (sin theta) ^ 3) (p - e2 * a * (cos theta) ^ 3);
          phi = refine_phi a e2 p z 10 phi0
      in \<lparr>geo_lat = toDegrees phi, geo_lon = toDegrees (atan2 y x),
          geo_h = (if \<bar>cos phi\<bar> > 0.0000000001 then p / cos phi - a / W_of e2 phi
                   else \<bar>z\<bar> / \<bar>sin phi\<bar> - a / W_of e2 phi * (1 - e2))\<rparr>)"
  by (simp add: geocentricToGeographic_def getEllipsoidParams_def Let_def W_of_def)

section \<open>The round trip at latitude 60 on Clarke 1880\<close>

text \<open>Interval steps for sums, differences, quotients and square roots of enclosed
  quantities, and the evaluation of the round trip of latitude 60, longitude 0, height
  10000 m on the Clarke 1880 ellipsoid with 20 significant digits. There the sine and
  cosine of the latitude are \<open>sqrt 3 / 2\<close> and \<open>1 / 2\<close>, the first pass of the loop finds
  \<^verbatim>\<open>newPhi\<close> within \<open>4 / 10 ^ 13\<close> of the initial approximation and leaves with the
  initial approximation, and the height is computed from it.\<close>

lemma interval_add:
  fixes x y :: real
  assumes "a \<le> x \<and> x \<le> b" and "c \<le> y \<and> y \<le> d" and "lo \<le> a + c" and "b + d \<le> hi"
  shows "lo \<le> x + y \<and> x + y \<le> hi"
  using assms by linarith

lemma interval_sub:
  fixes x y :: real
  assumes "a \<le> x \<and> x \<le> b" and "c \<le> y \<and> y \<le> d" and "lo \<le> a - d" and "b - c \<le> hi"
  shows "lo \<le> x - y \<and> x - y \<le> hi"
  using assms by linarith

lemma interval_div:
  fixes x y :: real
  assumes "a \<le> x \<and> x \<le> b" and "c \<le> y \<and> y \<le> d"
    and "0 \<le> a" and "0 < c" and "lo * d \<le> a" and "b \<le> hi * c"
  shows "lo \<le> x / y \<and> x / y \<le> hi"
proof
  have d: "0 < d" using assms(2,4) by linarith
  have "lo \<le> a / d" using assms(5) d by (simp add: pos_le_divide_eq)
  also have "a / d \<le> x / y" using assms by (intro frac_le) linarith+
  finally show "lo \<le> x / y" .
  have "x / y \<le> b / c" using assms by (intro frac_le) linarith+
  also have "b / c \<le> hi" using assms(4,6) by (simp add: pos_divide_le_eq)
  finally show "x / y \<le> hi" .
qed

lemma interval_sqrt:
  fixes x :: real
  assumes "a \<le> x \<and> x \<le> b" and "lo * lo \<le> a" and "b \<le> hi * hi" and "0 \<le> hi"
  shows "lo \<le> sqrt x \<and> sqrt x \<le> hi"
proof
  have "lo\<^sup>2 \<le> x" using assms(1,2) unfolding power2_eq_square by linarith
  then show "lo \<le> sqrt x" by (rule real_le_rsqrt)
  have "x \<le> hi\<^sup>2" using assms(1,3) unfolding power2_eq_square by linarith
  then show "sqrt x \<le> hi" using assms(4) by (intro real_le_lsqrt)
qed

lemma interval_close:
  fixes u q :: real
  assumes "a \<le> u \<and> u \<le> b" and "c \<le> q \<and> q \<le> d" and "b - c < e" and "d - a < e"
  shows "\<bar>u - q\<bar> < e"
  using assms by linarith

lemma interval_gt:
  fixes v :: real
  assumes "lo \<le> v \<and> v \<le> hi" and "c < lo"
  shows "c < v"
  using assms by linarith

lemma clarke1880_height:
  "10000.000001 < geo_h (geocentricToGeographic
      (xyz_x (geographicToGeocentric 60 0 10000 Clarke1880))
      (xyz_y (geographicToGeocentric 60 0 10000 Clarke1880))
      (xyz_z (geographicToGeocentric 60 0 10000 Clarke1880)) Clarke1880)"
proof -
  define f :: real where "f = 1 / 293.466021"
  define a :: real where "a = 6378249.2"
  define e2 where "e2 = 2 * f - f * f"
  define b where "b = a * (1 - f)"
  define q1 where "q1 = 1 - e2"
  define epb where "epb = e2 / (1 - e2) * b"
  define ea where "ea = e2 * a"
  define w2 where "w2 = 1 - e2 * (3 / 4)"
  define r3 where "r3 = sqrt 3"
  define s where "s = r3 / 2"
  define W where "W = sqrt w2"
  define N where "N = a / W"
  define Nh where "Nh = N + 10000"
  define x where "x = Nh / 2"
  define Nq where "Nq = N * q1"
  define Nqh where "Nqh = Nq + 10000"
  define z where "z = Nqh * s"
  define za where "za = z * a"
  define xb where "xb = x * b"
  define t where "t = za / xb"
  define t2 where "t2 = t * t"
  define t21 where "t21 = 1 + t2"
  define rt where "rt = sqrt t21"
  define st where "st = t / rt"
  define ct where "ct = 1 / rt"
  define st2 where "st2 = st * st"
  define st3 where "st3 = st2 * st"
  define ct2 where "ct2 = ct * ct"
  define ct3 where "ct3 = ct2 * ct"
  define n1 where "n1 = epb * st3"
  define num where "num = z + n1"
  define d1 where "d1 = ea * ct3"
  define den where "den = x - d1"
  define Q where "Q = num / den"
  define Q2 where "Q2 = Q * Q"
  define Q21 where "Q21 = 1 + Q2"
  define rQ where "rQ = sqrt Q21"
  define s0 where "s0 = Q / rQ"
  define c0 where "c0 = 1 / rQ"
  define es0 where "es0 = e2 * s0"
  define ess where "ess = es0 * s0"
  define w0 where "w0 = 1 - ess"
  define W0 where "W0 = sqrt w0"
  define N0 where "N0 = a / W0"
  define eN where "eN = e2 * N0"
  define eNs where "eNs = eN * s0"
  define u1n where "u1n = z + eNs"
  define u1 where "u1 = u1n / x"
  define xc where "xc = x / c0"
  define hh where "hh = xc - N0"
  have a: "6378249.2 \<le> a \<and> a \<le> 6378249.2"
    unfolding a_def by (simp add: a_def)
  have e2: "0.0068034876530955348162 \<le> e2 \<and> e2 \<le> 0.0068034876530955348163"
    unfolding e2_def by (simp add: f_def)
  have q1: "0.99319651234690446518 \<le> q1 \<and> q1 \<le> 0.99319651234690446519"
    unfolding q1_def by (simp add: e2_def f_def)
  have epb: "43542.71363365747606 \<le> epb \<and> epb \<le> 43542.713633657476061"
    unfolding epb_def by (simp add: e2_def b_def a_def f_def)
  have ea: "43394.339680566472465 \<le> ea \<and> ea \<le> 43394.339680566472466"
    unfolding ea_def by (simp add: e2_def a_def f_def)
  have w2: "0.99489738426017834888 \<le> w2 \<and> w2 \<le> 0.99489738426017834889"
    unfolding w2_def by (simp add: e2_def f_def)
  have three: "3 \<le> (3::real) \<and> (3::real) \<le> 3" by simp
  have r3: "1.73205080756887729352 \<le> r3 \<and> r3 \<le> 1.73205080756887729353"
    unfolding r3_def by (rule interval_sqrt [OF three]) simp_all
  have two: "2 \<le> (2::real) \<and> (2::real) \<le> 2" by simp
  have one: "1 \<le> (1::real) \<and> (1::real) \<le> 1" by simp
  have tenk: "10000 \<le> (10000::real) \<and> (10000::real) \<le> 10000" by simp
  have s: "0.86602540378443864676 \<le> s \<and> s \<le> 0.86602540378443864677"
    unfolding s_def by (rule interval_div [OF r3 two]) simp_all
  have W: "0.99744542921413918767 \<le> W \<and> W \<le> 0.99744542921413918769"
    unfolding W_def by (rule interval_sqrt [OF w2]) simp_all
  have N: "6394584.6190555542102 \<le> N \<and> N \<le> 6394584.6190555542104"
    unfolding N_def by (rule interval_div [OF a W]) simp_all
  have Nh: "6404584.6190555542102 \<le> Nh \<and> Nh \<le> 6404584.6190555542104"
    unfolding Nh_def by (rule interval_add [OF N tenk]) simp_all
  have x: "3202292.3095277771051 \<le> x \<and> x \<le> 3202292.3095277771052"
    unfolding x_def by (rule interval_div [OF Nh two]) simp_all
  have Nq: "6351079.1415531351331 \<le> Nq \<and> Nq \<le> 6351079.1415531351334"
    unfolding Nq_def by (rule interval_mult [OF N q1]) simp_all
  have Nqh: "6361079.1415531351331 \<le> Nqh \<and> Nqh \<le> 6361079.1415531351334"
    unfolding Nqh_def by (rule interval_add [OF Nq tenk]) simp_all
  have z: "5508856.1320683242132 \<le> z \<and> z \<le> 5508856.1320683242137"
    unfolding z_def by (rule interval_mult [OF Nqh s]) simp_all
  have za: "35136857217279.883258 \<le> za \<and> za \<le> 35136857217279.883262"
    unfolding za_def by (rule interval_mult [OF z a]) simp_all
  have b: "6356514.9999782537004 \<le> b \<and> b \<le> 6356514.9999782537005"
    unfolding b_def by (simp add: a_def f_def)
  have xb: "20355419099828.320077 \<le> xb \<and> xb \<le> 20355419099828.320079"
    unfolding xb_def by (rule interval_mult [OF x b]) simp_all
  have t: "1.7261672208741814365 \<le> t \<and> t \<le> 1.726167220874181437"
    unfolding t_def by (rule interval_div [OF za xb]) simp_all
  have t2: "2.9796532744204950808 \<le> t2 \<and> t2 \<le> 2.9796532744204950826"
    unfolding t2_def by (rule interval_mult [OF t t]) simp_all
  have t21: "3.9796532744204950808 \<le> t21 \<and> t21 \<le> 3.9796532744204950826"
    unfolding t21_def by (rule interval_add [OF one t2]) simp_all
  have rt: "1.99490683351892277806 \<le> rt \<and> rt \<le> 1.99490683351892277852"
    unfolding rt_def by (rule interval_sqrt [OF t21]) simp_all
  have st: "0.86528713615627995174 \<le> st \<and> st \<le> 0.8652871361562799522"
    unfolding st_def by (rule interval_div [OF t rt]) simp_all
  have ct: "0.5012765424418575761 \<le> ct \<and> ct \<le> 0.50127654244185757623"
    unfolding ct_def by (rule interval_div [OF one rt]) simp_all
  have st2: "0.74872182799753655973 \<le> st2 \<and> st2 \<le> 0.74872182799753656054"
    unfolding st2_def by (rule interval_mult [OF st st]) simp_all
  have st3: "0.64785936632568323597 \<le> st3 \<and> st3 \<le> 0.64785936632568323702"
    unfolding st3_def by (rule interval_mult [OF st2 st]) simp_all
  have ct2: "0.2512781720024634398 \<le> ct2 \<and> ct2 \<le> 0.25127817200246343994"
    unfolding ct2_def by (rule interval_mult [OF ct ct]) simp_all
  have ct3: "0.12595985325250525259 \<le> ct3 \<and> ct3 \<le> 0.1259598532525052527"
    unfolding ct3_def by (rule interval_mult [OF ct2 ct]) simp_all
  have n1: "28209.55486280202058 \<le> n1 \<and> n1 \<le> 28209.554862802020627"
    unfolding n1_def by (rule interval_mult [OF epb st3]) simp_all
  have num: "5537065.6869311262337 \<le> num \<and> num \<le> 5537065.6869311262344"
    unfolding num_def by (rule interval_add [OF z n1]) simp_all
  have d1: "5465.9446581535185304 \<le> d1 \<and> d1 \<le> 5465.9446581535185354"
    unfolding d1_def by (rule interval_mult [OF ea ct3]) simp_all
  have den: "3196826.3648696235865 \<le> den \<and> den \<le> 3196826.3648696235867"
    unfolding den_def by (rule interval_sub [OF x d1]) simp_all
  have Q: "1.7320508075692577709 \<le> Q \<and> Q \<le> 1.7320508075692577713"
    unfolding Q_def by (rule interval_div [OF num den]) simp_all
  have Q2: "3.0000000000013180122 \<le> Q2 \<and> Q2 \<le> 3.0000000000013180137"
    unfolding Q2_def by (rule interval_mult [OF Q Q]) simp_all
  have Q21: "4.0000000000013180122 \<le> Q21 \<and> Q21 \<le> 4.0000000000013180137"
    unfolding Q21_def by (rule interval_add [OF one Q2]) simp_all
  have rQ: "2.00000000000032950304 \<le> rQ \<and> rQ \<le> 2.00000000000032950343"
    unfolding rQ_def by (rule interval_sqrt [OF Q21]) simp_all
  have s0: "0.86602540378448620627 \<le> s0 \<and> s0 \<le> 0.86602540378448620665"
    unfolding s0_def by (rule interval_div [OF Q rQ]) simp_all
  have c0: "0.49999999999991762414 \<le> c0 \<and> c0 \<le> 0.49999999999991762425"
    unfolding c0_def by (rule interval_div [OF one rQ]) simp_all
  have es0: "0.005891993141914826955 \<le> es0 \<and> es0 \<le> 0.0058919931419148269578"
    unfolding es0_def by (rule interval_mult [OF e2 s0]) simp_all
  have ess: "0.0051026157398222115526 \<le> ess \<and> ess \<le> 0.0051026157398222115574"
    unfolding ess_def by (rule interval_mult [OF es0 s0]) simp_all
  have w0: "0.99489738426017778844 \<le> w0 \<and> w0 \<le> 0.99489738426017778845"
    unfolding w0_def by (rule interval_sub [OF one ess]) simp_all
  have W0: "0.99744542921413890673 \<le> W0 \<and> W0 \<le> 0.99744542921413890675"
    unfolding W0_def by (rule interval_sqrt [OF w0]) simp_all
  have N0: "6394584.6190555560113 \<le> N0 \<and> N0 \<le> 6394584.6190555560115"
    unfolding N0_def by (rule interval_div [OF a W0]) simp_all
  have eN: "43505.47750241908931 \<le> eN \<and> eN \<le> 43505.477502419089313"
    unfolding eN_def by (rule interval_mult [OF e2 N0]) simp_all
  have eNs: "37676.848720869372292 \<le> eNs \<and> eNs \<le> 37676.848720869372312"
    unfolding eNs_def by (rule interval_mult [OF eN s0]) simp_all
  have u1n: "5546532.9807891935854 \<le> u1n \<and> u1n \<le> 5546532.9807891935861"
    unfolding u1n_def by (rule interval_add [OF z eNs]) simp_all
  have u1: "1.7320508075688779428 \<le> u1 \<and> u1 \<le> 1.7320508075688779432"
    unfolding u1_def by (rule interval_div [OF u1n x]) simp_all
  have xc: "6404584.6190566093751 \<le> xc \<and> xc \<le> 6404584.6190566093768"
    unfolding xc_def by (rule interval_div [OF x c0]) simp_all
  have hh: "10000.0000010533636 \<le> hh \<and> hh \<le> 10000.0000010533655"
    unfolding hh_def by (rule interval_sub [OF xc N0]) simp_all
  have x0: "0 < x" by (rule interval_gt [OF x]) simp
  have xb0: "0 < xb" by (rule interval_gt [OF xb]) simp
  have den0: "0 < den" by (rule interval_gt [OF den]) simp
  have Ea: "ell_a Clarke1880 = a" and Ef: "ell_f Clarke1880 = f"
    by (simp_all add: Clarke1880_def a_def f_def)
  have rad: "toRadians 60 = pi / 3" "toRadians 0 = 0"
    by (simp_all add: toRadians_def DEG2RAD_def)
  have ss: "sqrt 3 / 2 * (sqrt 3 / 2) = (3 / 4 :: real)" by simp
  have Wphi: "W_of e2 (pi / 3) = W"
    by (simp add: W_of_def sin_60 W_def w2_def)
  have v: "geographicToGeocentric 60 0 10000 Clarke1880 = \<lparr>xyz_x = x, xyz_y = 0, xyz_z = z\<rparr>"
    by (simp add: geographicToGeocentric_eq Let_def Ea Ef rad sin_60 cos_60 e2_def [symmetric]
        Wphi x_def Nh_def N_def z_def Nqh_def Nq_def q1_def s_def r3_def)
  have px: "sqrt (x * x + 0 * 0) = x" using x0 by simp
  have theta: "atan2 (z * a) (x * b) = arctan t"
    using xb0 by (simp add: atan2_pos t_def za_def xb_def)
  have st: "sin (arctan t) = st" and ct: "cos (arctan t) = ct"
    by (simp_all add: sin_arctan cos_arctan st_def ct_def rt_def t21_def t2_def power2_eq_square)
  have Qe: "(z + e2 / (1 - e2) * b * st ^ 3) / (x - e2 * a * ct ^ 3) = Q"
    by (simp add: Q_def num_def n1_def epb_def st3_def st2_def den_def d1_def ea_def ct3_def
        ct2_def power3_eq_cube)
  have "0 < x - e2 * a * ct ^ 3"
    using den0 by (simp add: den_def d1_def ea_def ct3_def ct2_def power3_eq_cube)
  then have phi0: "atan2 (z + e2 / (1 - e2) * b * st ^ 3) (x - e2 * a * ct ^ 3) = arctan Q"
    by (simp only: atan2_pos Qe)
  have sQ: "sin (arctan Q) = s0" and cQ: "cos (arctan Q) = c0"
    by (simp_all add: sin_arctan cos_arctan s0_def c0_def rQ_def Q21_def Q2_def power2_eq_square)
  have WQ: "W_of e2 (arctan Q) = W0"
    unfolding W_of_def sQ by (simp add: W0_def w0_def ess_def es0_def)
  have "corr a e2 (arctan Q) = eNs"
    unfolding corr_def sQ by (simp add: eNs_def eN_def N0_def W0_def w0_def ess_def es0_def)
  then have "phi_step a e2 x z (arctan Q) = atan2 u1n x"
    by (simp add: phi_step_def u1n_def)
  then have stepQ: "phi_step a e2 x z (arctan Q) = arctan u1"
    using x0 by (simp add: atan2_pos u1_def)
  have "\<bar>arctan u1 - arctan Q\<bar> \<le> \<bar>u1 - Q\<bar>" by (rule arctan_lipschitz)
  also have "\<bar>u1 - Q\<bar> < 0.000000000001" by (rule interval_close [OF u1 Q]) simp_all
  finally have exit: "\<bar>phi_step a e2 x z (arctan Q) - arctan Q\<bar> < 0.000000000001"
    by (simp only: stepQ)
  have "refine_phi a e2 x z (Suc 9) (arctan Q) = arctan Q"
    using exit by (simp only: refine_phi_Suc if_True)
  then have refine: "refine_phi a e2 x z 10 (arctan Q) = arctan Q" by simp
  have "0.0000000001 < c0" by (rule interval_gt [OF c0]) simp
  then have c0big: "(0.0000000001 < \<bar>c0\<bar>) = True" by simp
  have hhe: "x / c0 - a / W0 = hh" by (simp add: hh_def xc_def N0_def)
  have "geo_h (geocentricToGeographic x 0 z Clarke1880) = hh"
    unfolding geocentricToGeographic_eq Let_def
    by (simp only: geographic.select_convs Ea Ef e2_def [symmetric] b_def [symmetric] px theta st ct
        phi0 refine cQ WQ c0big if_True hhe)
  moreover have "10000.000001 < hh" by (rule interval_gt [OF hh]) simp
  ultimately show ?thesis unfolding v xyz.select_convs by simp
qed

section \<open>Round trip through geocentric coordinates\<close>

text \<open>
  Claim C5 says that the round trip reproduces the height within \<open>1 / 10 ^ 6\<close> m. The code
  misses that at latitude 60, longitude 0 and height 10000 m on the catalog ellipsoid
  Clarke1880: converting to geocentric coordinates and back returns a height more than
  \<open>1 / 10 ^ 6\<close> m above 10000 m (about 1.05 micrometres). The loop commented
  \<^verbatim>\<open>Iterate for higher precision\<close> tests \<^verbatim>\<open>Math.abs(newPhi - phi) < 1e-12\<close> and breaks before
  \<^verbatim>\<open>phi = newPhi\<close>; here it leaves on its first pass, so the refined latitude is discarded
  and the height is computed from the initial approximation.
\<close>

theorem round_trip_clarke1880_height:
  "ELLIPSOIDS ''Clarke1880'' = Some Clarke1880 \<and>
   0.000001 < geo_h (geocentricToGeographic
      (xyz_x (geographicToGeocentric 60 0 10000 Clarke1880))
      (xyz_y (geographicToGeocentric 60 0 10000 Clarke1880))
      (xyz_z (geographicToGeocentric 60 0 10000 Clarke1880)) Clarke1880) - 10000"
proof
  show "ELLIPSOIDS ''Clarke1880'' = Some Clarke1880"
    by (simp add: ELLIPSOIDS_def Clarke1880_def)
  show "0.000001 < geo_h (geocentricToGeographic
      (xyz_x (geographicToGeocentric 60 0 10000 Clarke1880))
      (xyz_y (geographicToGeocentric 60 0 10000 Clarke1880))
      (xyz_z (geographicToGeocentric 60 0 10000 Clarke1880)) Clarke1880) - 10000"
    using clarke1880_height by simp
qed

end
